theory Spec2Isabelle
  imports Complex_Main
begin

section \<open>Numbers\<close>

text \<open>
  The bots compute with Python floats. Amounts, balances and fees are modelled as
  \<^typ>\<open>real\<close>: the constants \<open>0.99\<close>, \<open>0.999\<close>, \<open>1e6\<close> and \<open>1e9\<close> are the rationals
  they denote, and rounding error is not modelled. Counters are Python integers,
  modelled as \<^typ>\<open>int\<close>.

  \<open>int(x)\<close> on a float truncates toward zero.
\<close>

definition py_int :: "real \<Rightarrow> int" where
  "py_int x = (if 0 \<le> x then \<lfloor>x\<rfloor> else \<lceil>x\<rceil>)"

section \<open>Statistics, swap records and the outside world\<close>

text \<open>
  A swap record is the dictionary appended to \<open>self.transactions\<close>. The field
  \<open>tx_ref\<close> is \<open>'tx_hash'\<close> (Polygon) or \<open>'signature'\<close> (Solana), \<open>fee\<close> is
  \<open>'gas_fee_matic'\<close> or \<open>'fee_sol'\<close>. The wall-clock \<open>'timestamp'\<close> is left out.
\<close>

record swap_record =
  tx_ref :: string
  from_token :: string
  to_token :: string
  amount_in :: real
  amount_out :: real
  fee :: real

text \<open>The ultra-optimized Solana bot records two more keys per swap.\<close>

record ultra_swap_record = swap_record +
  priority_fee_sol :: real
  attempt :: int

text \<open>
  The statistics attributes of a bot object (\<open>self\<close>), as \<open>__init__\<close> creates them.
  \<open>start_time\<close> is wall-clock time and is left out, with every value derived from it
  (elapsed time, transaction rates).
\<close>

record 'r bot =
  total_volume :: real
  total_fees_paid :: real
  transaction_count :: int
  transactions :: "'r list"
  initial_usdc_balance :: real

record 'r ultra_bot = "'r bot" +
  total_priority_fees :: real
  retry_count :: int
  priority_fee :: int

definition init_bot :: "swap_record bot" where
  "init_bot = \<lparr>total_volume = 0, total_fees_paid = 0, transaction_count = 0,
     transactions = [], initial_usdc_balance = 0\<rparr>"

definition init_ultra_bot :: "int \<Rightarrow> ultra_swap_record ultra_bot" where
  "init_ultra_bot fee_microlamports =
    \<lparr>total_volume = 0, total_fees_paid = 0, transaction_count = 0,
     transactions = [], initial_usdc_balance = 0, total_priority_fees = 0, retry_count = 0,
     priority_fee = fee_microlamports\<rparr>"

text \<open>
  Everything outside the bot object is reached through calls whose answers the bot does
  not control: the exchange gateway (quote, submission, confirmation) and the balance
  queries. Each is an oracle, a function from the number of the call to its answer, and
  the world counts the calls made so far. \<open>time.sleep(d)\<close> appends \<open>d\<close> to \<open>sleeps\<close>.
\<close>

record world =
  gateway_calls :: nat
  balance_calls :: nat
  sleeps :: "real list"

definition init_world :: world where
  "init_world = \<lparr>gateway_calls = 0, balance_calls = 0, sleeps = []\<rparr>"

definition sleep :: "real \<Rightarrow> world \<Rightarrow> world" where
  "sleep d w = w\<lparr>sleeps := sleeps w @ [d]\<rparr>"

section \<open>polygon-bot/volume\_bot.py\<close>

definition USDC_ADDRESS :: string where
  "USDC_ADDRESS = ''0x2791Bca1f2de4661ED88A30C99A7a9449Aa84174''"

definition USDT_ADDRESS :: string where
  "USDT_ADDRESS = ''0xc2132D05D31c914a87C6611C10748AEb04B58e8F''"

definition MATIC :: string where
  "MATIC = ''MATIC''"

text \<open>
  What the chain answers to one swap through the router, step by step:
  \<open>getAmountsOut(...).call()\<close>, then building, signing and sending the transaction,
  then \<open>wait_for_transaction_receipt(tx_hash, timeout=120)\<close>. \<open>None\<close> is a call that
  raises (for the receipt: no receipt within the timeout).
\<close>

record receipt =
  status :: int
  gasUsed :: int
  effectiveGasPrice :: int

record evm_response =
  amounts_out :: "int list option"
  sent_tx_hash :: "string option"
  tx_receipt :: "receipt option"

type_synonym evm_gateway = "nat \<Rightarrow> evm_response"

type_synonym swap_result = "(string \<times> real \<times> real) option"

text \<open>
  \<open>PolygonVolumeBot.swap_tokens\<close>. The whole body is inside \<open>try\<close>; every exception
  returns \<open>None\<close>. \<open>amounts_out[1]\<close> raises on a list with fewer than two entries.
  \<open>min_amount_out\<close> and \<open>deadline\<close> only go into the request.
\<close>

definition swap_tokens ::
  "evm_gateway \<Rightarrow> string \<Rightarrow> string \<Rightarrow> real \<Rightarrow> nat \<Rightarrow> nat \<Rightarrow>
   swap_record bot \<times> world \<Rightarrow> swap_result \<times> swap_record bot \<times> world" where
  "swap_tokens gw token_in token_out amount decimals_in decimals_out s =
    (case s of (b, w) \<Rightarrow>
      let amount_in_wei = py_int (amount * 10 ^ decimals_in) in
      if amount_in_wei = 0 then (None, b, w)
      else
        let r = gw (gateway_calls w);
            w1 = w\<lparr>gateway_calls := gateway_calls w + 1\<rparr>
        in case amounts_out r of
             None \<Rightarrow> (None, b, w1)
           | Some [] \<Rightarrow> (None, b, w1)
           | Some [a0] \<Rightarrow> (None, b, w1)
           | Some (a0 # expected_out # rest) \<Rightarrow>
              (case sent_tx_hash r of
                 None \<Rightarrow> (None, b, w1)
               | Some tx_hash \<Rightarrow>
                  (case tx_receipt r of
                     None \<Rightarrow> (None, b, w1)
                   | Some rc \<Rightarrow>
                      if status rc \<noteq> 1 then (None, b, w1)
                      else
                        let gas_fee_matic = real_of_int (gasUsed rc * effectiveGasPrice rc) / 10 ^ 18;
                            amount_out' = real_of_int expected_out / 10 ^ decimals_out;
                            b1 = b\<lparr>total_volume := total_volume b + amount,
                                   total_fees_paid := total_fees_paid b + gas_fee_matic,
                                   transaction_count := transaction_count b + 1,
                                   transactions := transactions b @
                                     [\<lparr>tx_ref = tx_hash, from_token = token_in, to_token = token_out,
                                       amount_in = amount, amount_out = amount_out',
                                       fee = gas_fee_matic\<rparr>]\<rparr>
                        in (Some (tx_hash, amount_out', gas_fee_matic), b1, w1))))"


text \<open>
  The \<open>n\<close>-th balance query of the run: \<open>balanceOf(...).call()\<close> for a token, or
  \<open>eth.get_balance\<close> for \<open>MATIC\<close>, in base units. \<open>None\<close> is an RPC call that raises;
  \<open>get_balance\<close> and \<open>get_matic_balance\<close> do not catch it.
\<close>

type_synonym evm_balance_oracle = "nat \<Rightarrow> string \<Rightarrow> int option"

definition get_balance ::
  "evm_balance_oracle \<Rightarrow> string \<Rightarrow> nat \<Rightarrow> world \<Rightarrow> real option \<times> world" where
  "get_balance bal token_address decimals w =
    (map_option (\<lambda>units. real_of_int units / 10 ^ decimals) (bal (balance_calls w) token_address),
     w\<lparr>balance_calls := balance_calls w + 1\<rparr>)"

definition get_matic_balance :: "evm_balance_oracle \<Rightarrow> world \<Rightarrow> real option \<times> world" where
  "get_matic_balance bal w = get_balance bal MATIC 18 w"

text \<open>
  \<open>approve_token\<close>: the allowance query is outside the \<open>try\<close> (it raises to the
  caller); the approval transaction is inside (any exception gives \<open>False\<close>).
  \<open>approval_status = None\<close> is an exception while building, sending or awaiting it.
\<close>

record approve_response =
  allowance :: "int option"
  approval_status :: "int option"

type_synonym approval_oracle = "string \<Rightarrow> approve_response"

definition approve_token :: "approval_oracle \<Rightarrow> string \<Rightarrow> bool option" where
  "approve_token appr token_address =
    (case allowance (appr token_address) of
       None \<Rightarrow> None
     | Some a \<Rightarrow>
        if a > 0 then Some True
        else (case approval_status (appr token_address) of
                None \<Rightarrow> Some False
              | Some st \<Rightarrow> Some (st = 1)))"

text \<open>
  One iteration of the loop of \<open>PolygonVolumeBot.run\<close>. \<open>Cycle_failed\<close> is
  \<open>failed_cycles += 1; continue\<close>, \<open>Cycle_successful\<close> is \<open>successful_cycles += 1\<close>,
  \<open>Cycle_raised\<close> is an exception of a balance query, which nothing in \<open>run\<close> catches.
\<close>

datatype cycle_outcome = Cycle_raised | Cycle_failed | Cycle_successful

definition cycle_polygon ::
  "evm_gateway \<Rightarrow> evm_balance_oracle \<Rightarrow> bool \<Rightarrow> real \<Rightarrow>
   swap_record bot \<times> world \<Rightarrow> cycle_outcome \<times> swap_record bot \<times> world" where
  "cycle_polygon gw bal use_full_balance fixed_amount s =
    (case s of (b, w) \<Rightarrow>
      (case get_balance bal USDC_ADDRESS 6 w of
         (None, w1) \<Rightarrow> (Cycle_raised, b, w1)
       | (Some usdc_balance, w1) \<Rightarrow>
          if usdc_balance < 1 / 10 then (Cycle_failed, b, w1)
          else
            (let swap_amount = (if use_full_balance then usdc_balance
                                else min fixed_amount usdc_balance)
             in case swap_tokens gw USDC_ADDRESS USDT_ADDRESS swap_amount 6 6 (b, w1) of
                  (None, b2, w2) \<Rightarrow> (Cycle_failed, b2, w2)
                | (Some result1, b2, w2) \<Rightarrow>
                   (case get_balance bal USDT_ADDRESS 6 (sleep 3 w2) of
                      (None, w3) \<Rightarrow> (Cycle_raised, b2, w3)
                    | (Some usdt_balance, w3) \<Rightarrow>
                       (case swap_tokens gw USDT_ADDRESS USDC_ADDRESS
                               (usdt_balance * (99 / 100)) 6 6 (b2, w3) of
                          (None, b4, w4) \<Rightarrow> (Cycle_failed, b4, w4)
                        | (Some result2, b4, w4) \<Rightarrow> (Cycle_successful, b4, sleep 2 w4))))))"

text \<open>
  The loop \<open>for i in range(num_cycles)\<close>, by recursion on the iterations left; \<open>i\<close>
  only decides when progress is printed. The result is \<open>None\<close> when an exception left
  the loop, else the two counters.
\<close>

fun run_cycles_polygon ::
  "evm_gateway \<Rightarrow> evm_balance_oracle \<Rightarrow> bool \<Rightarrow> real \<Rightarrow> nat \<Rightarrow> int \<times> int \<Rightarrow>
   swap_record bot \<times> world \<Rightarrow> (int \<times> int) option \<times> swap_record bot \<times> world" where
  "run_cycles_polygon gw bal use_full_balance fixed_amount 0 counts s = (Some counts, s)"
| "run_cycles_polygon gw bal use_full_balance fixed_amount (Suc n) counts s =
    (case cycle_polygon gw bal use_full_balance fixed_amount s of
       (Cycle_raised, s1) \<Rightarrow> (None, s1)
     | (Cycle_failed, s1) \<Rightarrow>
         run_cycles_polygon gw bal use_full_balance fixed_amount n (fst counts, snd counts + 1) s1
     | (Cycle_successful, s1) \<Rightarrow>
         run_cycles_polygon gw bal use_full_balance fixed_amount n (fst counts + 1, snd counts) s1)"

text \<open>
  The \<open>'summary'\<close> and \<open>'transactions'\<close> of the JSON report, without the values derived
  from wall-clock time. Writing the file is taken to succeed.
\<close>

record 'r report =
  start_balance :: real
  final_balance :: real
  reported_volume :: real
  reported_transaction_count :: int
  successful_cycles :: int
  failed_cycles :: int
  volume_multiplier :: real
  capital_loss_percentage :: real
  reported_transactions :: "'r list"

definition make_report :: "('r, 'm) bot_scheme \<Rightarrow> real \<Rightarrow> int \<Rightarrow> int \<Rightarrow> 'r report" where
  "make_report b final_usdc succ failed =
    (let capital_lost = initial_usdc_balance b - final_usdc in
     \<lparr>start_balance = initial_usdc_balance b,
      final_balance = final_usdc,
      reported_volume = total_volume b,
      reported_transaction_count = transaction_count b,
      successful_cycles = succ,
      failed_cycles = failed,
      volume_multiplier =
        (if initial_usdc_balance b > 0 then total_volume b / initial_usdc_balance b else 0),
      capital_loss_percentage =
        (if initial_usdc_balance b > 0 then capital_lost / initial_usdc_balance b * 100 else 0),
      reported_transactions = transactions b\<rparr>)"

definition generate_report_polygon ::
  "evm_balance_oracle \<Rightarrow> int \<Rightarrow> int \<Rightarrow> swap_record bot \<times> world \<Rightarrow>
   swap_record report option \<times> swap_record bot \<times> world" where
  "generate_report_polygon bal succ failed s =
    (case s of (b, w) \<Rightarrow>
      (case get_balance bal USDC_ADDRESS 6 w of
         (None, w1) \<Rightarrow> (None, b, w1)
       | (Some final_usdc, w1) \<Rightarrow>
          (case get_balance bal USDT_ADDRESS 6 w1 of
             (None, w2) \<Rightarrow> (None, b, w2)
           | (Some final_usdt, w2) \<Rightarrow>
              (case get_matic_balance bal w2 of
                 (None, w3) \<Rightarrow> (None, b, w3)
               | (Some final_matic, w3) \<Rightarrow>
                   (Some (make_report b final_usdc succ failed), b, w3)))))"

text \<open>
  \<open>PolygonVolumeBot.run\<close>. \<open>Inl\<close> is a run that ends without a report: one of the
  early \<open>return\<close>s of the start-up checks, or an exception that leaves \<open>run\<close>.
\<close>

datatype run_error = Insufficient_USDC | Approval_failed | Exception_raised

definition run_polygon ::
  "evm_gateway \<Rightarrow> evm_balance_oracle \<Rightarrow> approval_oracle \<Rightarrow> int \<Rightarrow> bool \<Rightarrow> real \<Rightarrow>
   swap_record bot \<times> world \<Rightarrow> (run_error + swap_record report) \<times> swap_record bot \<times> world" where
  "run_polygon gw bal appr num_cycles use_full_balance fixed_amount s =
    (case s of (b, w) \<Rightarrow>
      (case get_balance bal USDC_ADDRESS 6 w of
         (None, w1) \<Rightarrow> (Inl Exception_raised, b, w1)
       | (Some usdc_balance, w1) \<Rightarrow>
      (case get_balance bal USDT_ADDRESS 6 w1 of
         (None, w2) \<Rightarrow> (Inl Exception_raised, b, w2)
       | (Some usdt_balance, w2) \<Rightarrow>
      (case get_matic_balance bal w2 of
         (None, w3) \<Rightarrow> (Inl Exception_raised, b, w3)
       | (Some matic_balance, w3) \<Rightarrow>
          if usdc_balance < 1 then (Inl Insufficient_USDC, b, w3)
          else
            (let b1 = b\<lparr>initial_usdc_balance := usdc_balance\<rparr> in
             case approve_token appr USDC_ADDRESS of
               None \<Rightarrow> (Inl Exception_raised, b1, w3)
             | Some False \<Rightarrow> (Inl Approval_failed, b1, w3)
             | Some True \<Rightarrow>
                (case approve_token appr USDT_ADDRESS of
                   None \<Rightarrow> (Inl Exception_raised, b1, w3)
                 | Some False \<Rightarrow> (Inl Approval_failed, b1, w3)
                 | Some True \<Rightarrow>
                    (case run_cycles_polygon gw bal use_full_balance fixed_amount
                            (nat num_cycles) (0, 0) (b1, w3) of
                       (None, s1) \<Rightarrow> (Inl Exception_raised, s1)
                     | (Some counts, s1) \<Rightarrow>
                        (case generate_report_polygon bal (fst counts) (snd counts) s1 of
                           (None, s2) \<Rightarrow> (Inl Exception_raised, s2)
                         | (Some rep, s2) \<Rightarrow> (Inr rep, s2)))))))))"

section \<open>The Jupiter gateway of the two Solana bots\<close>

definition USDC_MINT :: string where
  "USDC_MINT = ''EPjFWdd5AufqSSqeM2qN1xzybapC8G4wEGGkZwyTDt1v''"

definition USDT_MINT :: string where
  "USDT_MINT = ''Es9vMFrzaCERmJfrF4H2FYD4KCoNkY11McCe8BenwNYB''"

text \<open>
  One look at the transaction while waiting for its confirmation:
  \<open>get_signature_statuses\<close> raises, or reports no confirmation status yet, or reports
  one; then \<open>get_transaction\<close> raises, or has no fee metadata, or gives the fee in
  lamports.
\<close>

datatype tx_lookup = Lookup_error | Lookup_no_meta | Lookup_fee int

datatype poll = Status_error | Status_pending | Status_confirmed tx_lookup

text \<open>
  What the aggregator and the RPC node answer to one attempt, step by step:
  the quote request up to \<open>int(quote_data['outAmount'])\<close> (\<open>None\<close>: any of it raises);
  the swap request up to the signed transaction (\<open>False\<close>: any of it raises);
  \<open>send_raw_transaction\<close> (\<open>None\<close>: it raises, \<open>Some None\<close>: \<open>response.value\<close> is
  empty, else the signature); and the polls that fit into the confirmation timeout,
  in order.
\<close>

record jupiter_response =
  quote_out_amount :: "int option"
  swap_transaction_ok :: bool
  send_value :: "string option option"
  status_polls :: "poll list"

type_synonym jupiter_gateway = "nat \<Rightarrow> jupiter_response"

text \<open>
  The loop \<open>while time.time() - start_time < timeout\<close>, over the polls that fit into
  the timeout. A poll that raises anywhere, the transaction lookup included, is passed
  over (\<open>except: pass\<close>); every poll that does not return is followed by
  \<open>time.sleep(interval)\<close>. The result is the fee in lamports (\<open>5000\<close> without
  metadata), or \<open>None\<close> when the loop ends without a confirmation.
\<close>

fun await_confirmation :: "poll list \<Rightarrow> real \<Rightarrow> world \<Rightarrow> int option \<times> world" where
  "await_confirmation [] interval w = (None, w)"
| "await_confirmation (Status_confirmed (Lookup_fee fee_lamports) # ps) interval w =
     (Some fee_lamports, w)"
| "await_confirmation (Status_confirmed Lookup_no_meta # ps) interval w = (Some 5000, w)"
| "await_confirmation (Status_confirmed Lookup_error # ps) interval w =
     await_confirmation ps interval (sleep interval w)"
| "await_confirmation (Status_error # ps) interval w =
     await_confirmation ps interval (sleep interval w)"
| "await_confirmation (Status_pending # ps) interval w =
     await_confirmation ps interval (sleep interval w)"

section \<open>solana-bot/volume\_bot.py\<close>

text \<open>
  \<open>SolanaVolumeBot.swap_tokens_jupiter\<close> of the original Solana bot: one attempt, every
  exception returns \<open>None\<close>. When the confirmation loop ends without a confirmation
  the function returns the tuple \<open>(signature, expected_out, 0.000005)\<close> and records
  nothing. \<open>slippage_bps\<close> only goes into the request.
\<close>

definition swap_tokens_jupiter ::
  "jupiter_gateway \<Rightarrow> string \<Rightarrow> string \<Rightarrow> real \<Rightarrow>
   swap_record bot \<times> world \<Rightarrow> swap_result \<times> swap_record bot \<times> world" where
  "swap_tokens_jupiter gw input_mint output_mint amount s =
    (case s of (b, w) \<Rightarrow>
      let amount_lamports = py_int (amount * 10 ^ 6) in
      if amount_lamports = 0 then (None, b, w)
      else
        let r = gw (gateway_calls w);
            w1 = w\<lparr>gateway_calls := gateway_calls w + 1\<rparr>
        in (case quote_out_amount r of
              None \<Rightarrow> (None, b, w1)
            | Some expected_out_lamports \<Rightarrow>
               let expected_out = real_of_int expected_out_lamports / 10 ^ 6 in
               if \<not> swap_transaction_ok r then (None, b, w1)
               else
                 (case send_value r of
                    None \<Rightarrow> (None, b, w1)
                  | Some None \<Rightarrow> (None, b, w1)
                  | Some (Some signature) \<Rightarrow>
                     (case await_confirmation (status_polls r) (1 / 2) w1 of
                        (None, w2) \<Rightarrow> (Some (signature, expected_out, 5 / 10 ^ 6), b, w2)
                      | (Some fee_lamports, w2) \<Rightarrow>
                         let fee_sol = real_of_int fee_lamports / 10 ^ 9;
                             b1 = b\<lparr>total_volume := total_volume b + amount,
                                    total_fees_paid := total_fees_paid b + fee_sol,
                                    transaction_count := transaction_count b + 1,
                                    transactions := transactions b @
                                      [\<lparr>tx_ref = signature, from_token = input_mint,
                                        to_token = output_mint, amount_in = amount,
                                        amount_out = expected_out, fee = fee_sol\<rparr>]\<rparr>
                         in (Some (signature, expected_out, fee_sol), b1, w2)))))"

section \<open>solana-bot-ultra/volume\_bot.py\<close>

definition USDCE_MINT :: string where
  "USDCE_MINT = ''A9mUU4qviSctJVPJdBJW3qp3HnZ1utdhKi1Qpr4BWK5r''"

definition SOL :: string where
  "SOL = ''SOL''"

text \<open>The retry configuration that \<open>__init__\<close> sets.\<close>

definition max_retries :: nat where
  "max_retries = 3"

definition retry_delay :: real where
  "retry_delay = 1 / 2"

text \<open>
  The body of \<open>for attempt in range(self.max_retries)\<close> up to its \<open>except\<close> clause:
  one attempt either returns from \<open>swap_tokens_jupiter\<close> or raises.
\<close>

datatype 'a attempt_result = Raised | Returned 'a

definition attempt_swap ::
  "jupiter_gateway \<Rightarrow> string \<Rightarrow> string \<Rightarrow> real \<Rightarrow> nat \<Rightarrow>
   ultra_swap_record ultra_bot \<times> world \<Rightarrow>
   swap_result attempt_result \<times> ultra_swap_record ultra_bot \<times> world" where
  "attempt_swap gw input_mint output_mint amount att s =
    (case s of (b, w) \<Rightarrow>
      let amount_lamports = py_int (amount * 10 ^ 6) in
      if amount_lamports = 0 then (Returned None, b, w)
      else
        let r = gw (gateway_calls w);
            w1 = w\<lparr>gateway_calls := gateway_calls w + 1\<rparr>
        in (case quote_out_amount r of
              None \<Rightarrow> (Raised, b, w1)
            | Some expected_out_lamports \<Rightarrow>
               let expected_out = real_of_int expected_out_lamports / 10 ^ 6 in
               if \<not> swap_transaction_ok r then (Raised, b, w1)
               else
                 (case send_value r of
                    None \<Rightarrow> (Raised, b, w1)
                  | Some None \<Rightarrow> (Raised, b, w1)
                  | Some (Some signature) \<Rightarrow>
                     (case await_confirmation (status_polls r) (3 / 10) w1 of
                        (None, w2) \<Rightarrow> (Raised, b, w2)
                      | (Some fee_lamports, w2) \<Rightarrow>
                         let fee_sol = real_of_int fee_lamports / 10 ^ 9;
                             priority_fee_sol' = real_of_int (priority_fee b) / 10 ^ 9;
                             b1 = b\<lparr>total_volume := total_volume b + amount,
                                    total_fees_paid := total_fees_paid b + fee_sol,
                                    transaction_count := transaction_count b + 1,
                                    transactions := transactions b @
                                      [\<lparr>tx_ref = signature, from_token = input_mint,
                                        to_token = output_mint, amount_in = amount,
                                        amount_out = expected_out, fee = fee_sol,
                                        priority_fee_sol = priority_fee_sol',
                                        attempt = int att + 1\<rparr>],
                                    total_priority_fees := total_priority_fees b + priority_fee_sol'\<rparr>
                         in (Returned (Some (signature, expected_out, fee_sol)), b1, w2)))))"

text \<open>
  The \<open>for\<close> loop with its \<open>except\<close> clause, over the attempt numbers still to run.
  An attempt that raises is followed by \<open>retry_count += 1\<close> and
  \<open>time.sleep(self.retry_delay)\<close> unless it was the last one, which returns \<open>None\<close>.
\<close>

fun swap_attempts ::
  "jupiter_gateway \<Rightarrow> string \<Rightarrow> string \<Rightarrow> real \<Rightarrow> nat list \<Rightarrow>
   ultra_swap_record ultra_bot \<times> world \<Rightarrow>
   swap_result \<times> ultra_swap_record ultra_bot \<times> world" where
  "swap_attempts gw input_mint output_mint amount [] s = (None, s)"
| "swap_attempts gw input_mint output_mint amount (att # rest) s =
    (case attempt_swap gw input_mint output_mint amount att s of
       (Returned res, s1) \<Rightarrow> (res, s1)
     | (Raised, b1, w1) \<Rightarrow>
        if att < max_retries - 1
        then swap_attempts gw input_mint output_mint amount rest
               (b1\<lparr>retry_count := retry_count b1 + 1\<rparr>, sleep retry_delay w1)
        else (None, b1, w1))"

definition swap_tokens_jupiter_ultra ::
  "jupiter_gateway \<Rightarrow> string \<Rightarrow> string \<Rightarrow> real \<Rightarrow>
   ultra_swap_record ultra_bot \<times> world \<Rightarrow>
   swap_result \<times> ultra_swap_record ultra_bot \<times> world" where
  "swap_tokens_jupiter_ultra gw input_mint output_mint amount s =
     swap_attempts gw input_mint output_mint amount [0..<max_retries] s"

text \<open>
  \<open>get_token_balance\<close> and \<open>get_sol_balance\<close> catch every exception and return \<open>0.0\<close>;
  the oracle answers the \<open>n\<close>-th query with the amount in UI units (lamports for
  \<open>SOL\<close>), or with \<open>None\<close> when the call raises or the account has no value.
\<close>

type_synonym sol_balance_oracle = "nat \<Rightarrow> string \<Rightarrow> real option"

definition get_token_balance :: "sol_balance_oracle \<Rightarrow> string \<Rightarrow> world \<Rightarrow> real \<times> world" where
  "get_token_balance bal mint w =
    ((case bal (balance_calls w) mint of None \<Rightarrow> 0 | Some ui_amount \<Rightarrow> ui_amount),
     w\<lparr>balance_calls := balance_calls w + 1\<rparr>)"

definition get_sol_balance :: "sol_balance_oracle \<Rightarrow> world \<Rightarrow> real \<times> world" where
  "get_sol_balance bal w =
    ((case bal (balance_calls w) SOL of None \<Rightarrow> 0 | Some lamports \<Rightarrow> lamports / 10 ^ 9),
     w\<lparr>balance_calls := balance_calls w + 1\<rparr>)"

text \<open>One iteration of the loop of the ultra bot's \<open>run\<close>; nothing in it can raise.\<close>

definition cycle_ultra ::
  "jupiter_gateway \<Rightarrow> sol_balance_oracle \<Rightarrow> bool \<Rightarrow> real \<Rightarrow>
   ultra_swap_record ultra_bot \<times> world \<Rightarrow>
   cycle_outcome \<times> ultra_swap_record ultra_bot \<times> world" where
  "cycle_ultra gw bal use_full_balance fixed_amount s =
    (case s of (b, w) \<Rightarrow>
      (case get_token_balance bal USDC_MINT w of
         (usdc_balance, w1) \<Rightarrow>
          if usdc_balance < 1 / 100 then (Cycle_failed, b, w1)
          else
            (let swap_amount = (if use_full_balance then usdc_balance * (999 / 1000)
                                else min fixed_amount usdc_balance)
             in case swap_tokens_jupiter_ultra gw USDC_MINT USDCE_MINT swap_amount (b, w1) of
                  (None, b2, w2) \<Rightarrow> (Cycle_failed, b2, w2)
                | (Some result1, b2, w2) \<Rightarrow>
                   (case get_token_balance bal USDCE_MINT w2 of
                      (usdce_balance, w3) \<Rightarrow>
                       (case swap_tokens_jupiter_ultra gw USDCE_MINT USDC_MINT
                               (usdce_balance * (999 / 1000)) (b2, w3) of
                          (None, b4, w4) \<Rightarrow> (Cycle_failed, b4, w4)
                        | (Some result2, b4, w4) \<Rightarrow> (Cycle_successful, b4, w4))))))"

fun run_cycles_ultra ::
  "jupiter_gateway \<Rightarrow> sol_balance_oracle \<Rightarrow> bool \<Rightarrow> real \<Rightarrow> nat \<Rightarrow> int \<times> int \<Rightarrow>
   ultra_swap_record ultra_bot \<times> world \<Rightarrow>
   (int \<times> int) \<times> ultra_swap_record ultra_bot \<times> world" where
  "run_cycles_ultra gw bal use_full_balance fixed_amount 0 counts s = (counts, s)"
| "run_cycles_ultra gw bal use_full_balance fixed_amount (Suc n) counts s =
    (case cycle_ultra gw bal use_full_balance fixed_amount s of
       (Cycle_successful, s1) \<Rightarrow>
         run_cycles_ultra gw bal use_full_balance fixed_amount n (fst counts + 1, snd counts) s1
     | (oc, s1) \<Rightarrow>
         run_cycles_ultra gw bal use_full_balance fixed_amount n (fst counts, snd counts + 1) s1)"

text \<open>
  The ultra bot's \<open>run\<close> and \<open>_generate_report\<close>: three balance queries, the start-up
  check, the loop, three more balance queries and the report.
\<close>

definition run_ultra ::
  "jupiter_gateway \<Rightarrow> sol_balance_oracle \<Rightarrow> int \<Rightarrow> bool \<Rightarrow> real \<Rightarrow>
   ultra_swap_record ultra_bot \<times> world \<Rightarrow>
   (run_error + ultra_swap_record report) \<times> ultra_swap_record ultra_bot \<times> world" where
  "run_ultra gw bal num_cycles use_full_balance fixed_amount s =
    (case s of (b, w) \<Rightarrow>
      (case get_token_balance bal USDC_MINT w of (usdc_balance, w1) \<Rightarrow>
      (case get_token_balance bal USDCE_MINT w1 of (usdce_balance, w2) \<Rightarrow>
      (case get_sol_balance bal w2 of (sol_balance, w3) \<Rightarrow>
        if usdc_balance < 1 then (Inl Insufficient_USDC, b, w3)
        else
          (case run_cycles_ultra gw bal use_full_balance fixed_amount (nat num_cycles) (0, 0)
                  (b\<lparr>initial_usdc_balance := usdc_balance\<rparr>, w3) of
             (counts, b1, w4) \<Rightarrow>
              (case get_token_balance bal USDC_MINT w4 of (final_usdc, w5) \<Rightarrow>
              (case get_token_balance bal USDCE_MINT w5 of (final_usdce, w6) \<Rightarrow>
              (case get_sol_balance bal w6 of (final_sol, w7) \<Rightarrow>
                (Inr (make_report b1 final_usdc (fst counts) (snd counts)), b1, w7)))))))))"

section \<open>Predicates of the specification\<close>

subsection \<open>What the gateway answers\<close>

text \<open>
  The chain lets a swap of the Polygon bot go through: the quote has two amounts, the
  transaction is sent, and its receipt arrives with status 1.
\<close>

definition evm_confirms :: "evm_response \<Rightarrow> bool" where
  "evm_confirms r =
    (case amounts_out r of
       Some (a0 # expected_out # rest) \<Rightarrow>
         (case sent_tx_hash r of
            Some h \<Rightarrow> (case tx_receipt r of Some rc \<Rightarrow> status rc = 1 | None \<Rightarrow> False)
          | None \<Rightarrow> False)
     | _ \<Rightarrow> False)"

text \<open>
  A poll ends the confirmation loop of the Solana bots: the status is confirmed and the
  lookup of the transaction does not raise.
\<close>

definition poll_confirms :: "poll \<Rightarrow> bool" where
  "poll_confirms p =
    (case p of Status_confirmed (Lookup_fee f) \<Rightarrow> True
             | Status_confirmed Lookup_no_meta \<Rightarrow> True
             | _ \<Rightarrow> False)"

text \<open>
  A poll reports a confirmation status.
\<close>

definition reports_confirmation :: "poll \<Rightarrow> bool" where
  "reports_confirmation p = (case p of Status_confirmed l \<Rightarrow> True | _ \<Rightarrow> False)"

text \<open>
  The aggregator quotes, builds the transaction, and the node accepts it.
\<close>

definition submission_accepted :: "jupiter_response \<Rightarrow> bool" where
  "submission_accepted r =
    (quote_out_amount r \<noteq> None \<and> swap_transaction_ok r \<and>
     (case send_value r of Some (Some sg) \<Rightarrow> True | _ \<Rightarrow> False))"

text \<open>
  The submission is accepted and no poll within the timeout reports a confirmation.
\<close>

definition confirmation_times_out :: "jupiter_response \<Rightarrow> bool" where
  "confirmation_times_out r =
    (submission_accepted r \<and> \<not> list_ex reports_confirmation (status_polls r))"

text \<open>
  An attempt of a Solana bot goes through to a confirmed swap.
\<close>

definition jupiter_confirms :: "jupiter_response \<Rightarrow> bool" where
  "jupiter_confirms r = (submission_accepted r \<and> list_ex poll_confirms (status_polls r))"

subsection \<open>What a call does to the statistics\<close>

text \<open>
  One swap of \<open>amount\<close> has been recorded between \<open>b\<close> and \<open>b'\<close>.
\<close>

definition swap_recorded ::
  "real \<Rightarrow> ('a swap_record_scheme, 'm) bot_scheme \<Rightarrow> ('a swap_record_scheme, 'm) bot_scheme \<Rightarrow> bool" where
  "swap_recorded amount b b' =
    (total_volume b' = total_volume b + amount \<and>
     transaction_count b' = transaction_count b + 1 \<and>
     transactions b' = transactions b @ [last (transactions b')] \<and>
     amount_in (last (transactions b')) = amount \<and>
     total_fees_paid b' = total_fees_paid b + fee (last (transactions b')))"

text \<open>
  The records appended between \<open>b\<close> and \<open>b'\<close>, and the statistics growing by exactly
  those records.
\<close>

definition new_records :: "('r, 'm) bot_scheme \<Rightarrow> ('r, 'm) bot_scheme \<Rightarrow> 'r list" where
  "new_records b b' = drop (length (transactions b)) (transactions b')"

definition stats_extended ::
  "('a swap_record_scheme, 'm) bot_scheme \<Rightarrow> ('a swap_record_scheme, 'm) bot_scheme \<Rightarrow> bool" where
  "stats_extended b b' =
    (transactions b' = transactions b @ new_records b b' \<and>
     transaction_count b' = transaction_count b + int (length (new_records b b')) \<and>
     total_volume b' = total_volume b + sum_list (map amount_in (new_records b b')) \<and>
     total_fees_paid b' = total_fees_paid b + sum_list (map fee (new_records b b')))"

text \<open>
  The two invariants of the statistics.
\<close>

definition count_matches :: "('r, 'm) bot_scheme \<Rightarrow> bool" where
  "count_matches b = (transaction_count b = int (length (transactions b)))"


text \<open>
  The steps a single swap call may take: nothing recorded, or one record appended with
  the counter, respectively the volume, advanced by it.
\<close>

definition count_step :: "('r, 'm) bot_scheme \<Rightarrow> ('r, 'm) bot_scheme \<Rightarrow> bool" where
  "count_step b b' =
    (transactions b' = transactions b \<and> transaction_count b' = transaction_count b \<or>
     transactions b' = transactions b @ [last (transactions b')] \<and>
     transaction_count b' = transaction_count b + 1)"

definition volume_step ::
  "real \<Rightarrow> ('a swap_record_scheme, 'm) bot_scheme \<Rightarrow> ('a swap_record_scheme, 'm) bot_scheme \<Rightarrow> bool" where
  "volume_step amount b b' =
    (transactions b' = transactions b \<and> total_volume b' = total_volume b \<or>
     transactions b' = transactions b @ [last (transactions b')] \<and>
     amount_in (last (transactions b')) = amount \<and>
     total_volume b' = total_volume b + amount)"


subsection \<open>Swap sizes and start-up\<close>

text \<open>
  The size of leg 1 as \<open>run\<close> computes it from the queried balance (line 382 of the
  Polygon bot, line 404 of the ultra bot).
\<close>

definition leg1_polygon :: "bool \<Rightarrow> real \<Rightarrow> real \<Rightarrow> real" where
  "leg1_polygon uf fx a = (if uf then a else min fx a)"

definition leg1_ultra :: "bool \<Rightarrow> real \<Rightarrow> real \<Rightarrow> real" where
  "leg1_ultra uf fx a = (if uf then a * (999 / 1000) else min fx a)"

text \<open>
  The value \<open>get_token_balance\<close> returns for the \<open>n\<close>-th balance query.
\<close>

definition ui_balance :: "sol_balance_oracle \<Rightarrow> nat \<Rightarrow> string \<Rightarrow> real" where
  "ui_balance bal n mint = (case bal n mint of None \<Rightarrow> 0 | Some ui_amount \<Rightarrow> ui_amount)"


section \<open>Example answers of the outside world\<close>

text \<open>Concrete gateways, balances and approvals, used to run the model.\<close>

definition evm_ok :: evm_response where
  "evm_ok = \<lparr>amounts_out = Some [1000000, 999000], sent_tx_hash = Some ''0xabc'',
     tx_receipt = Some \<lparr>status = 1, gasUsed = 100000, effectiveGasPrice = 30000000000\<rparr>\<rparr>"

definition evm_down :: evm_response where
  "evm_down = \<lparr>amounts_out = None, sent_tx_hash = None, tx_receipt = None\<rparr>"

definition gw_always_fails :: evm_gateway where
  "gw_always_fails n = evm_down"

definition gw_always_confirms :: evm_gateway where
  "gw_always_confirms n = evm_ok"

definition gw_second_leg_fails :: evm_gateway where
  "gw_second_leg_fails n = (if n = 0 then evm_ok else evm_down)"

definition bal_ten :: evm_balance_oracle where
  "bal_ten n t = Some 10000000"

definition bal_seven :: evm_balance_oracle where
  "bal_seven n t = Some 7000000"

definition appr_ok :: approval_oracle where
  "appr_ok t = \<lparr>allowance = Some 1, approval_status = None\<rparr>"

definition jup_ok :: jupiter_response where
  "jup_ok = \<lparr>quote_out_amount = Some 999000, swap_transaction_ok = True,
     send_value = Some (Some ''5sig''), status_polls = [Status_pending, Status_confirmed (Lookup_fee 5000)]\<rparr>"

definition jup_down :: jupiter_response where
  "jup_down = \<lparr>quote_out_amount = None, swap_transaction_ok = False,
     send_value = None, status_polls = []\<rparr>"

definition jup_timeout :: jupiter_response where
  "jup_timeout = \<lparr>quote_out_amount = Some 999000, swap_transaction_ok = True,
     send_value = Some (Some ''5sig''), status_polls = [Status_pending, Status_error]\<rparr>"

definition jup_always_fails :: jupiter_gateway where
  "jup_always_fails n = jup_down"

definition jup_always_confirms :: jupiter_gateway where
  "jup_always_confirms n = jup_ok"

definition jup_always_times_out :: jupiter_gateway where
  "jup_always_times_out n = jup_timeout"

definition jup_fails_twice :: jupiter_gateway where
  "jup_fails_twice n = (if n < 2 then jup_down else jup_ok)"

definition sol_bal_ten :: sol_balance_oracle where
  "sol_bal_ten n t = Some 10"

definition sol_bal_seven :: sol_balance_oracle where
  "sol_bal_seven n t = Some 7"


section \<open>Properties\<close>

subsection \<open>Single swap calls\<close>

lemma py_int_small: "\<bar>x\<bar> < 1 \<Longrightarrow> py_int x = 0"
  unfolding py_int_def by (auto simp: floor_eq_iff ceiling_eq_iff)

lemma swap_tokens_effect:
  assumes "swap_tokens gw ti to amount d_in d_out (b, w) = (res, b', w')"
  shows "(res = None \<and> b' = b) \<or> (res \<noteq> None \<and> swap_recorded amount b b')"
  using assms
  by (auto simp: swap_tokens_def swap_recorded_def Let_def split: option.splits list.splits if_splits)

lemma swap_tokens_result:
  "fst (swap_tokens gw ti to amount d_in d_out (b, w)) = None \<longleftrightarrow>
     py_int (amount * 10 ^ d_in) = 0 \<or> \<not> evm_confirms (gw (gateway_calls w))"
  by (auto simp: swap_tokens_def evm_confirms_def Let_def split: option.splits list.splits)

lemma await_confirmation_None:
  "fst (await_confirmation ps d w) = None \<longleftrightarrow> \<not> list_ex poll_confirms ps"
  by (induction ps d w rule: await_confirmation.induct) (simp_all add: poll_confirms_def)

lemma await_confirmation_calls:
  "gateway_calls (snd (await_confirmation ps d w)) = gateway_calls w \<and>
   balance_calls (snd (await_confirmation ps d w)) = balance_calls w"
  by (induction ps d w rule: await_confirmation.induct) (simp_all add: sleep_def)

lemma await_confirmation_sleeps:
  "x \<noteq> d \<Longrightarrow> count_list (sleeps (snd (await_confirmation ps d w))) x = count_list (sleeps w) x"
  by (induction ps d w rule: await_confirmation.induct) (simp_all add: sleep_def)

lemma poll_confirms_reports: "poll_confirms p \<Longrightarrow> reports_confirmation p"
  by (auto simp: poll_confirms_def reports_confirmation_def split: poll.splits tx_lookup.splits)

lemma times_out_not_confirms: "confirmation_times_out r \<Longrightarrow> \<not> jupiter_confirms r"
  by (auto simp: confirmation_times_out_def jupiter_confirms_def list_ex_iff dest: poll_confirms_reports)

lemma attempt_swap_effect:
  assumes "attempt_swap gw im om amount att (b, w) = (r, b', w')"
  shows "(r = Raised \<and> b' = b) \<or> (r = Returned None \<and> b' = b \<and> w' = w) \<or>
         (\<exists>x. r = Returned (Some x)) \<and> swap_recorded amount b b' \<and> retry_count b' = retry_count b"
  using assms
  by (auto simp: attempt_swap_def swap_recorded_def Let_def split: option.splits if_splits prod.splits)

lemma attempt_swap_Raised:
  "py_int (amount * 10 ^ 6) \<noteq> 0 \<Longrightarrow>
   fst (attempt_swap gw im om amount att (b, w)) = Raised \<longleftrightarrow> \<not> jupiter_confirms (gw (gateway_calls w))"
  using await_confirmation_None[of "status_polls (gw (gateway_calls w))" "3/10" "w\<lparr>gateway_calls := gateway_calls w + 1\<rparr>"]
  by (auto simp: attempt_swap_def jupiter_confirms_def submission_accepted_def Let_def
           split: option.splits if_splits prod.splits)

lemma attempt_swap_zero:
  "py_int (amount * 10 ^ 6) = 0 \<Longrightarrow> attempt_swap gw im om amount att (b, w) = (Returned None, b, w)"
  by (simp add: attempt_swap_def)

lemma attempt_swap_Returned_None:
  "fst (attempt_swap gw im om amount att (b, w)) = Returned None \<longleftrightarrow> py_int (amount * 10 ^ 6) = 0"
  by (auto simp: attempt_swap_def Let_def split: option.splits if_splits prod.splits)

lemma attempt_swap_world:
  assumes "attempt_swap gw im om amount att (b, w) = (r, b', w')"
  shows "gateway_calls w' = (if py_int (amount * 10 ^ 6) = 0 then gateway_calls w else gateway_calls w + 1)
     \<and> balance_calls w' = balance_calls w
     \<and> count_list (sleeps w') retry_delay = count_list (sleeps w) retry_delay"
  using assms
    await_confirmation_calls[of "status_polls (gw (gateway_calls w))" "3/10" "w\<lparr>gateway_calls := gateway_calls w + 1\<rparr>"]
    await_confirmation_sleeps[of retry_delay "3/10" "status_polls (gw (gateway_calls w))" "w\<lparr>gateway_calls := gateway_calls w + 1\<rparr>"]
  by (auto simp: attempt_swap_def Let_def retry_delay_def split: option.splits if_splits prod.splits)

lemma swap_recorded_retry [simp]:
  "swap_recorded amount (b\<lparr>retry_count := k\<rparr>) b' = swap_recorded amount b b'"
  by (simp add: swap_recorded_def)

lemma swap_attempts_effect:
  "swap_attempts gw im om amount atts (b, w) = (res, b', w') \<Longrightarrow>
     (res = None \<and> b' = b\<lparr>retry_count := retry_count b'\<rparr> \<or>
      res \<noteq> None \<and> swap_recorded amount b b') \<and>
     retry_count b \<le> retry_count b' \<and>
     retry_count b' \<le> retry_count b + int (length atts) \<and>
     gateway_calls w' \<le> gateway_calls w + length atts \<and>
     balance_calls w' = balance_calls w \<and>
     count_list (sleeps w') retry_delay =
       count_list (sleeps w) retry_delay + nat (retry_count b' - retry_count b)"
proof (induction atts arbitrary: b w)
  case Nil
  then show ?case by simp
next
  case (Cons att rest)
  obtain r b1 w1 where a: "attempt_swap gw im om amount att (b, w) = (r, b1, w1)"
    by (metis prod_cases3)
  note eff = attempt_swap_effect[OF a] and wor = attempt_swap_world[OF a]
  show ?case
  proof (cases r)
    case (Returned x)
    with Cons.prems a eff wor show ?thesis by (auto split: if_splits)
  next
    case Raised
    with eff have b1: "b1 = b" by simp
    show ?thesis
    proof (cases "att < max_retries - 1")
      case False
      with Cons.prems a Raised b1 wor show ?thesis by (auto split: if_splits)
    next
      case True
      with Cons.prems a Raised b1
      have rec: "swap_attempts gw im om amount rest
                   (b\<lparr>retry_count := retry_count b + 1\<rparr>, sleep retry_delay w1) = (res, b', w')"
        by simp
      from Cons.IH[OF rec] wor show ?thesis
        by (auto simp: sleep_def split: if_splits)
    qed
  qed
qed

lemma swap_tokens_jupiter_effect:
  assumes "swap_tokens_jupiter gw im om amount (b, w) = (res, b', w')"
  shows "(b' = b) \<or> (res \<noteq> None \<and> swap_recorded amount b b')"
  using assms
  by (auto simp: swap_tokens_jupiter_def swap_recorded_def Let_def split: option.splits if_splits prod.splits)

lemma swap_tokens_jupiter_None:
  assumes "swap_tokens_jupiter gw im om amount (b, w) = (None, b', w')"
  shows "b' = b"
  using assms
  by (auto simp: swap_tokens_jupiter_def Let_def split: option.splits if_splits prod.splits)

subsection \<open>Records appended by cycles and runs\<close>

lemma stats_extended_same [simp]: "stats_extended b b" "new_records b b = []"
  by (simp_all add: stats_extended_def new_records_def)

lemma swap_recorded_extended:
  assumes "swap_recorded amount b b'"
  shows "stats_extended b b'" and "new_records b b' = [last (transactions b')]"
    and "amount_in (last (transactions b')) = amount"
proof -
  from assms have t: "transactions b' = transactions b @ [last (transactions b')]"
    by (simp add: swap_recorded_def)
  have "drop (length (transactions b)) (transactions b @ [last (transactions b')]) = [last (transactions b')]"
    by simp
  with t show n: "new_records b b' = [last (transactions b')]"
    by (simp add: new_records_def)
  from assms n t show "stats_extended b b'"
    by (simp add: stats_extended_def swap_recorded_def)
  from assms show "amount_in (last (transactions b')) = amount"
    by (simp add: swap_recorded_def)
qed

lemma stats_extended_trans:
  assumes "stats_extended b b1" and "stats_extended b1 b2"
  shows "stats_extended b b2" and "new_records b b2 = new_records b b1 @ new_records b1 b2"
proof -
  from assms have t1: "transactions b1 = transactions b @ new_records b b1"
    and t2: "transactions b2 = transactions b1 @ new_records b1 b2"
    by (simp_all add: stats_extended_def)
  have "drop (length (transactions b)) (transactions b @ new_records b b1 @ new_records b1 b2)
          = new_records b b1 @ new_records b1 b2" by simp
  with t1 t2 show n: "new_records b b2 = new_records b b1 @ new_records b1 b2"
    by (simp add: new_records_def[of b b2])
  from assms n t1 t2 show "stats_extended b b2"
    by (simp add: stats_extended_def)
qed

lemma count_matches_extended: "count_matches b \<Longrightarrow> stats_extended b b' \<Longrightarrow> count_matches b'"
  by (simp add: count_matches_def stats_extended_def)


lemma swap_tokens_balance_calls:
  "swap_tokens gw ti to amount d_in d_out (b, w) = (res, b', w') \<Longrightarrow>
     balance_calls w' = balance_calls w"
  by (auto simp: swap_tokens_def Let_def split: option.splits list.splits if_splits)

lemma cycle_polygon_cases:
  assumes c: "cycle_polygon gw bal uf fx (b, w) = (oc, b', w')"
  shows "(oc \<noteq> Cycle_successful \<and> b' = b) \<or>
         (\<exists>ua. bal (balance_calls w) USDC_ADDRESS = Some ua \<and> oc \<noteq> Cycle_successful \<and>
               swap_recorded (leg1_polygon uf fx (real_of_int ua / 10 ^ 6)) b b') \<or>
         (\<exists>ua ub b1. bal (balance_calls w) USDC_ADDRESS = Some ua \<and>
               bal (balance_calls w + 1) USDT_ADDRESS = Some ub \<and> oc = Cycle_successful \<and>
               swap_recorded (leg1_polygon uf fx (real_of_int ua / 10 ^ 6)) b b1 \<and>
               swap_recorded (real_of_int ub / 10 ^ 6 * (99 / 100)) b1 b')"
proof (cases "bal (balance_calls w) USDC_ADDRESS")
  case None
  with c show ?thesis by (simp add: cycle_polygon_def get_balance_def)
next
  case (Some ua)
  let ?a = "real_of_int ua / 10 ^ 6"
  let ?w1 = "w\<lparr>balance_calls := balance_calls w + 1\<rparr>"
  show ?thesis
  proof (cases "?a < 1 / 10")
    case True
    with c Some show ?thesis by (simp add: cycle_polygon_def get_balance_def)
  next
    case False
    obtain r1 b1 w1 where s1:
      "swap_tokens gw USDC_ADDRESS USDT_ADDRESS (leg1_polygon uf fx ?a) 6 6 (b, ?w1) = (r1, b1, w1)"
      by (metis prod_cases3)
    note e1 = swap_tokens_effect[OF s1] and bc1 = swap_tokens_balance_calls[OF s1]
    show ?thesis
    proof (cases r1)
      case None
      with c Some False s1 e1 show ?thesis
        by (simp add: cycle_polygon_def get_balance_def leg1_polygon_def Let_def)
    next
      case r1: (Some x1)
      with e1 have rec1: "swap_recorded (leg1_polygon uf fx ?a) b b1" by simp
      show ?thesis
      proof (cases "bal (balance_calls w + 1) USDT_ADDRESS")
        case None
        with c Some False s1 r1 rec1 bc1 show ?thesis
          by (simp add: cycle_polygon_def get_balance_def leg1_polygon_def Let_def sleep_def)
      next
        case ub: (Some ub)
        let ?w3 = "(sleep 3 w1)\<lparr>balance_calls := balance_calls w + 2\<rparr>"
        obtain r2 b2 w2 where s2:
          "swap_tokens gw USDT_ADDRESS USDC_ADDRESS (real_of_int ub / 10 ^ 6 * (99 / 100)) 6 6 (b1, ?w3)
             = (r2, b2, w2)"
          by (metis prod_cases3)
        note e2 = swap_tokens_effect[OF s2]
        from c Some False s1 r1 bc1 ub s2
        have fin: "(oc, b', w') = (case r2 of None \<Rightarrow> (Cycle_failed, b2, w2)
                                   | Some x \<Rightarrow> (Cycle_successful, b2, sleep 2 w2))"
          by (cases r2) (simp_all add: cycle_polygon_def get_balance_def leg1_polygon_def Let_def sleep_def)
        show ?thesis
        proof (cases r2)
          case None
          with fin e2 rec1 Some show ?thesis by simp
        next
          case (Some x2)
          with fin e2 rec1 \<open>bal (balance_calls w) USDC_ADDRESS = Some ua\<close> ub show ?thesis by auto
        qed
      qed
    qed
  qed
qed

lemma cycle_polygon_stats:
  assumes c: "cycle_polygon gw bal uf fx (b, w) = (oc, b', w')"
  shows "stats_extended b b' \<and>
         (oc = Cycle_successful \<longrightarrow> length (new_records b b') = 2) \<and>
         (oc \<noteq> Cycle_successful \<longrightarrow> length (new_records b b') \<le> 1)"
  using cycle_polygon_cases[OF c]
proof (elim disjE exE conjE)
  assume "oc \<noteq> Cycle_successful" "b' = b"
  then show ?thesis by simp
next
  fix ua
  assume "oc \<noteq> Cycle_successful"
    and r: "swap_recorded (leg1_polygon uf fx (real_of_int ua / 10 ^ 6)) b b'"
  with swap_recorded_extended(1,2)[OF r] show ?thesis by simp
next
  fix ua ub b1
  assume oc: "oc = Cycle_successful"
    and r1: "swap_recorded (leg1_polygon uf fx (real_of_int ua / 10 ^ 6)) b b1"
    and r2: "swap_recorded (real_of_int ub / 10 ^ 6 * (99 / 100)) b1 b'"
  from stats_extended_trans[OF swap_recorded_extended(1)[OF r1] swap_recorded_extended(1)[OF r2]]
    swap_recorded_extended(2)[OF r1] swap_recorded_extended(2)[OF r2] oc
  show ?thesis by simp
qed

lemma run_cycles_polygon_stats:
  "run_cycles_polygon gw bal uf fx n (sc, fc) (b, w) = (res, b', w') \<Longrightarrow>
   stats_extended b b' \<and>
   (\<forall>sc' fc'. res = Some (sc', fc') \<longrightarrow>
      sc \<le> sc' \<and> fc \<le> fc' \<and> (sc' - sc) + (fc' - fc) = int n \<and>
      2 * (sc' - sc) \<le> int (length (new_records b b')) \<and>
      int (length (new_records b b')) \<le> 2 * (sc' - sc) + (fc' - fc))"
proof (induction n arbitrary: sc fc b w)
  case 0
  then show ?case by auto
next
  case (Suc n)
  obtain oc b1 w1 where c: "cycle_polygon gw bal uf fx (b, w) = (oc, b1, w1)"
    by (metis prod_cases3)
  note cs = cycle_polygon_stats[OF c]
  show ?case
  proof (cases oc)
    case Cycle_raised
    with Suc.prems c cs show ?thesis by auto
  next
    case Cycle_failed
    with Suc.prems c have
      rec: "run_cycles_polygon gw bal uf fx n (sc, fc + 1) (b1, w1) = (res, b', w')" by simp
    from Suc.IH[OF rec] cs Cycle_failed
      stats_extended_trans[of b b1 b'] show ?thesis by auto
  next
    case Cycle_successful
    with Suc.prems c have
      rec: "run_cycles_polygon gw bal uf fx n (sc + 1, fc) (b1, w1) = (res, b', w')" by simp
    from Suc.IH[OF rec] cs Cycle_successful
      stats_extended_trans[of b b1 b'] show ?thesis by auto
  qed
qed





lemma stats_extended_initial [simp]:
  "stats_extended b (b\<lparr>initial_usdc_balance := x\<rparr>)"
  "new_records b (b\<lparr>initial_usdc_balance := x\<rparr>) = []"
  "stats_extended (b\<lparr>initial_usdc_balance := x\<rparr>) b' = stats_extended b b'"
  "new_records (b\<lparr>initial_usdc_balance := x\<rparr>) b' = new_records b b'"
  by (simp_all add: stats_extended_def new_records_def)

lemma generate_report_polygon_result:
  "generate_report_polygon bal sc fc (b, w) = (res, b', w') \<Longrightarrow>
     b' = b \<and> (\<forall>rep. res = Some rep \<longrightarrow>
        successful_cycles rep = sc \<and> failed_cycles rep = fc \<and>
        reported_transaction_count rep = transaction_count b \<and>
        reported_volume rep = total_volume b \<and> reported_transactions rep = transactions b)"
  by (auto simp: generate_report_polygon_def make_report_def get_balance_def get_matic_balance_def Let_def
           split: prod.splits option.splits)


lemma run_polygon_stats:
  assumes r: "run_polygon gw bal appr n uf fx (b, w) = (res, b', w')"
  shows "stats_extended b b' \<and>
   (\<forall>rep. res = Inr rep \<longrightarrow>
      0 \<le> successful_cycles rep \<and> 0 \<le> failed_cycles rep \<and>
      successful_cycles rep + failed_cycles rep = max 0 n \<and>
      2 * successful_cycles rep \<le> int (length (new_records b b')) \<and>
      int (length (new_records b b')) \<le> 2 * successful_cycles rep + failed_cycles rep \<and>
      reported_transaction_count rep = transaction_count b' \<and>
      reported_volume rep = total_volume b' \<and> reported_transactions rep = transactions b')"
proof -
  show ?thesis
    using r
    apply (simp add: run_polygon_def get_balance_def get_matic_balance_def Let_def
        split: prod.splits option.splits if_splits bool.splits)
                        apply (auto dest!: run_cycles_polygon_stats generate_report_polygon_result)
    done
qed

subsection \<open>Amounts below one base unit\<close>

lemma attempt_numbers: "[0..<max_retries] = [0, 1, 2]"
  by (simp add: max_retries_def upt_rec)

lemma py_int_dust: "\<bar>amount\<bar> < 1 / 10 ^ d \<Longrightarrow> py_int (amount * 10 ^ d) = 0"
proof -
  assume "\<bar>amount\<bar> < 1 / 10 ^ d"
  then have "\<bar>amount\<bar> * 10 ^ d < 1" by (simp add: field_simps)
  then have "\<bar>amount * 10 ^ d\<bar> < 1" by (simp add: abs_mult)
  then show ?thesis by (rule py_int_small)
qed

lemma swap_tokens_jupiter_ultra_zero:
  "py_int (amount * 10 ^ 6) = 0 \<Longrightarrow>
     swap_tokens_jupiter_ultra gw im om amount (b, w) = (None, b, w)"
  by (simp add: swap_tokens_jupiter_ultra_def attempt_numbers attempt_swap_zero)

lemma swap_tokens_jupiter_zero:
  "py_int (amount * 10 ^ 6) = 0 \<Longrightarrow> swap_tokens_jupiter gw im om amount (b, w) = (None, b, w)"
  by (simp add: swap_tokens_jupiter_def)

lemma swap_tokens_zero:
  "py_int (amount * 10 ^ d_in) = 0 \<Longrightarrow> swap_tokens gw ti to amount d_in d_out (b, w) = (None, b, w)"
  by (simp add: swap_tokens_def)

text \<open>
  C10. A swap amount below one base unit of the token, so that the conversion to base
  units gives \<open>0\<close>, makes the swap call return \<open>None\<close> at once: the bot and the world
  are unchanged, so no retry is counted, no quote or submission request is made and
  nothing is slept. This holds for \<open>swap_tokens\<close> of the Polygon bot (at the decimals of
  the input token) and for both \<open>swap_tokens_jupiter\<close> (six decimals).
\<close>

theorem dust_amount_fails_at_once:
  "(\<bar>amount\<bar> < 1 / 10 ^ d \<longrightarrow>
      swap_tokens gw ti to amount d d' (b, w) = (None, b, w)) \<and>
   (\<bar>amount\<bar> < 1 / 10 ^ 6 \<longrightarrow>
      swap_tokens_jupiter_ultra jgw im om amount (ub, w) = (None, ub, w) \<and>
      swap_tokens_jupiter jgw' im' om' amount (b, w) = (None, b, w))"
  using py_int_dust[of amount d] py_int_dust[of amount 6]
  by (simp add: swap_tokens_zero swap_tokens_jupiter_ultra_zero swap_tokens_jupiter_zero)

theorem dust_amount_fails_at_once_witness:
  "\<bar>1 / 10 ^ 7\<bar> < (1::real) / 10 ^ 6 \<and>
   swap_tokens gw_always_fails USDC_ADDRESS USDT_ADDRESS (1 / 10 ^ 7) 6 6 (init_bot, init_world)
     = (None, init_bot, init_world) \<and>
   swap_tokens_jupiter_ultra jup_always_fails USDC_MINT USDCE_MINT (1 / 10 ^ 7)
       (init_ultra_bot 5000, init_world) = (None, init_ultra_bot 5000, init_world) \<and>
   swap_tokens_jupiter jup_always_fails USDC_MINT USDT_MINT (1 / 10 ^ 7) (init_bot, init_world)
     = (None, init_bot, init_world)"
  using dust_amount_fails_at_once[of "1 / 10 ^ 7" 6 gw_always_fails USDC_ADDRESS USDT_ADDRESS 6
      init_bot init_world jup_always_fails USDC_MINT USDCE_MINT "init_ultra_bot 5000"
      jup_always_fails USDC_MINT USDT_MINT]
  by simp

subsection \<open>The ultra bot: retries, cycles and runs\<close>

lemma get_token_balance_ui:
  "get_token_balance bal mint w =
     (ui_balance bal (balance_calls w) mint, w\<lparr>balance_calls := balance_calls w + 1\<rparr>)"
  by (simp add: get_token_balance_def ui_balance_def)

lemma swap_tokens_jupiter_ultra_effect:
  assumes "swap_tokens_jupiter_ultra gw im om amount (b, w) = (res, b', w')"
  shows "(res = None \<and> b' = b\<lparr>retry_count := retry_count b'\<rparr> \<or>
      res \<noteq> None \<and> swap_recorded amount b b') \<and>
     retry_count b \<le> retry_count b' \<and>
     gateway_calls w' \<le> gateway_calls w + 3 \<and>
     balance_calls w' = balance_calls w \<and>
     count_list (sleeps w') retry_delay =
       count_list (sleeps w) retry_delay + nat (retry_count b' - retry_count b)"
  using swap_attempts_effect[of gw im om amount "[0..<max_retries]" b w res b' w'] assms
  by (simp add: swap_tokens_jupiter_ultra_def max_retries_def)

lemma retry_only_extended:
  "b' = b\<lparr>retry_count := k\<rparr> \<Longrightarrow> stats_extended b b' \<and> new_records b b' = []"
  by (simp add: stats_extended_def new_records_def)

lemma swap_recorded_then_retry:
  "swap_recorded amount b b1 \<Longrightarrow> b2 = b1\<lparr>retry_count := k\<rparr> \<Longrightarrow> swap_recorded amount b b2"
  by (simp add: swap_recorded_def)

lemma cycle_ultra_cases:
  assumes c: "cycle_ultra gw bal uf fx (b, w) = (oc, b', w')"
  shows "(oc = Cycle_failed \<and> stats_extended b b' \<and> new_records b b' = []) \<or>
         (oc = Cycle_failed \<and>
            swap_recorded (leg1_ultra uf fx (ui_balance bal (balance_calls w) USDC_MINT)) b b') \<or>
         (\<exists>b1. oc = Cycle_successful \<and>
            swap_recorded (leg1_ultra uf fx (ui_balance bal (balance_calls w) USDC_MINT)) b b1 \<and>
            swap_recorded (ui_balance bal (balance_calls w + 1) USDCE_MINT * (999 / 1000)) b1 b')"
proof -
  let ?a = "ui_balance bal (balance_calls w) USDC_MINT"
  let ?w1 = "w\<lparr>balance_calls := balance_calls w + 1\<rparr>"
  have g1: "get_token_balance bal USDC_MINT w = (?a, ?w1)"
    by (simp add: get_token_balance_ui)
  show ?thesis
  proof (cases "?a < 1 / 100")
    case True
    with c g1 show ?thesis by (simp add: cycle_ultra_def)
  next
    case False
    obtain r1 b1 w1 where s1:
      "swap_tokens_jupiter_ultra gw USDC_MINT USDCE_MINT (leg1_ultra uf fx ?a) (b, ?w1) = (r1, b1, w1)"
      by (metis prod_cases3)
    note e1 = swap_tokens_jupiter_ultra_effect[OF s1]
    show ?thesis
    proof (cases r1)
      case None
      with e1 have "b1 = b\<lparr>retry_count := retry_count b1\<rparr>" by simp
      from retry_only_extended[OF this] c g1 False s1 None show ?thesis
        by (simp add: cycle_ultra_def leg1_ultra_def Let_def)
    next
      case r1: (Some x1)
      with e1 have rec1: "swap_recorded (leg1_ultra uf fx ?a) b b1"
        and bc1: "balance_calls w1 = balance_calls w + 1" by simp_all
      let ?bb = "ui_balance bal (balance_calls w + 1) USDCE_MINT"
      let ?w3 = "w1\<lparr>balance_calls := balance_calls w + 2\<rparr>"
      have g2: "get_token_balance bal USDCE_MINT w1 = (?bb, ?w3)"
        using bc1 by (simp add: get_token_balance_ui)
      obtain r2 b2 w2 where s2:
        "swap_tokens_jupiter_ultra gw USDCE_MINT USDC_MINT (?bb * (999 / 1000)) (b1, ?w3) = (r2, b2, w2)"
        by (metis prod_cases3)
      note e2 = swap_tokens_jupiter_ultra_effect[OF s2]
      from c g1 False s1 r1 g2 s2
      have fin: "(oc, b', w') = (case r2 of None \<Rightarrow> (Cycle_failed, b2, w2)
                                 | Some x \<Rightarrow> (Cycle_successful, b2, w2))"
        by (cases r2) (simp_all add: cycle_ultra_def leg1_ultra_def Let_def)
      show ?thesis
      proof (cases r2)
        case None
        with e2 have "b2 = b1\<lparr>retry_count := retry_count b2\<rparr>" by simp
        with rec1 have "swap_recorded (leg1_ultra uf fx ?a) b b2"
          by (rule swap_recorded_then_retry)
        with fin None show ?thesis by simp
      next
        case (Some x2)
        with fin e2 rec1 show ?thesis by auto
      qed
    qed
  qed
qed

lemma cycle_ultra_stats:
  assumes c: "cycle_ultra gw bal uf fx (b, w) = (oc, b', w')"
  shows "stats_extended b b' \<and> oc \<noteq> Cycle_raised \<and>
         (oc = Cycle_successful \<longrightarrow> length (new_records b b') = 2) \<and>
         (oc \<noteq> Cycle_successful \<longrightarrow> length (new_records b b') \<le> 1)"
  using cycle_ultra_cases[OF c]
proof (elim disjE exE conjE)
  assume "oc = Cycle_failed" "stats_extended b b'" "new_records b b' = []"
  then show ?thesis by simp
next
  assume "oc = Cycle_failed"
    and r: "swap_recorded (leg1_ultra uf fx (ui_balance bal (balance_calls w) USDC_MINT)) b b'"
  with swap_recorded_extended(1,2)[OF r] show ?thesis by simp
next
  fix b1
  assume oc: "oc = Cycle_successful"
    and r1: "swap_recorded (leg1_ultra uf fx (ui_balance bal (balance_calls w) USDC_MINT)) b b1"
    and r2: "swap_recorded (ui_balance bal (balance_calls w + 1) USDCE_MINT * (999 / 1000)) b1 b'"
  from stats_extended_trans[OF swap_recorded_extended(1)[OF r1] swap_recorded_extended(1)[OF r2]]
    swap_recorded_extended(2)[OF r1] swap_recorded_extended(2)[OF r2] oc
  show ?thesis by simp
qed

lemma run_cycles_ultra_stats:
  "run_cycles_ultra gw bal uf fx n (sc, fc) (b, w) = ((sc', fc'), b', w') \<Longrightarrow>
   stats_extended b b' \<and>
   sc \<le> sc' \<and> fc \<le> fc' \<and> (sc' - sc) + (fc' - fc) = int n \<and>
   2 * (sc' - sc) \<le> int (length (new_records b b')) \<and>
   int (length (new_records b b')) \<le> 2 * (sc' - sc) + (fc' - fc)"
proof (induction n arbitrary: sc fc b w)
  case 0
  then show ?case by auto
next
  case (Suc n)
  obtain oc b1 w1 where c: "cycle_ultra gw bal uf fx (b, w) = (oc, b1, w1)"
    by (metis prod_cases3)
  note cs = cycle_ultra_stats[OF c]
  show ?case
  proof (cases "oc = Cycle_successful")
    case False
    with Suc.prems c have
      rec: "run_cycles_ultra gw bal uf fx n (sc, fc + 1) (b1, w1) = ((sc', fc'), b', w')"
      by (cases oc) simp_all
    from Suc.IH[OF rec] cs False
      stats_extended_trans[of b b1 b'] show ?thesis by auto
  next
    case True
    with Suc.prems c have
      rec: "run_cycles_ultra gw bal uf fx n (sc + 1, fc) (b1, w1) = ((sc', fc'), b', w')" by simp
    from Suc.IH[OF rec] cs True
      stats_extended_trans[of b b1 b'] show ?thesis by auto
  qed
qed

lemma run_ultra_stats:
  assumes r: "run_ultra gw bal n uf fx (b, w) = (res, b', w')"
  shows "stats_extended b b' \<and>
   (\<forall>rep. res = Inr rep \<longrightarrow>
      0 \<le> successful_cycles rep \<and> 0 \<le> failed_cycles rep \<and>
      successful_cycles rep + failed_cycles rep = max 0 n \<and>
      2 * successful_cycles rep \<le> int (length (new_records b b')) \<and>
      int (length (new_records b b')) \<le> 2 * successful_cycles rep + failed_cycles rep \<and>
      reported_transaction_count rep = transaction_count b' \<and>
      reported_volume rep = total_volume b' \<and> reported_transactions rep = transactions b')"
proof (cases "ui_balance bal (balance_calls w) USDC_MINT < 1")
  case True
  with r show ?thesis
    by (auto simp: run_ultra_def get_token_balance_ui get_sol_balance_def)
next
  case False
  let ?b0 = "b\<lparr>initial_usdc_balance := ui_balance bal (balance_calls w) USDC_MINT\<rparr>"
  let ?w3 = "w\<lparr>balance_calls := Suc (Suc (Suc (balance_calls w)))\<rparr>"
  obtain sc fc b1 w4 where rc: "run_cycles_ultra gw bal uf fx (nat n) (0, 0) (?b0, ?w3) = ((sc, fc), b1, w4)"
    by (cases "run_cycles_ultra gw bal uf fx (nat n) (0, 0) (?b0, ?w3)") auto
  from run_cycles_ultra_stats[OF rc] have st: "stats_extended b b1 \<and>
   0 \<le> sc \<and> 0 \<le> fc \<and> sc + fc = int (nat n) \<and>
   2 * sc \<le> int (length (new_records b b1)) \<and>
   int (length (new_records b b1)) \<le> 2 * sc + fc" by simp
  from r False rc have "b' = b1 \<and> res = Inr (make_report b1
        (ui_balance bal (balance_calls w4) USDC_MINT) sc fc)"
    by (auto simp: run_ultra_def get_token_balance_ui get_sol_balance_def)
  with st show ?thesis by (auto simp: make_report_def)
qed

lemma attempt_swap_raises:
  assumes "py_int (amount * 10 ^ 6) \<noteq> 0" and "\<not> jupiter_confirms (gw (gateway_calls w))"
  shows "\<exists>w1. attempt_swap gw im om amount att (b, w) = (Raised, b, w1) \<and>
              gateway_calls w1 = gateway_calls w + 1"
proof -
  obtain r b1 w1 where a: "attempt_swap gw im om amount att (b, w) = (r, b1, w1)"
    by (metis prod_cases3)
  from attempt_swap_Raised[OF assms(1), of gw im om att b w] assms(2) a have "r = Raised" by simp
  with attempt_swap_effect[OF a] attempt_swap_world[OF a] a assms(1) show ?thesis by simp
qed

lemma attempt_swap_returns:
  assumes "py_int (amount * 10 ^ 6) \<noteq> 0" and "jupiter_confirms (gw (gateway_calls w))"
  shows "\<exists>x b1 w1. attempt_swap gw im om amount att (b, w) = (Returned (Some x), b1, w1) \<and>
              swap_recorded amount b b1 \<and> retry_count b1 = retry_count b \<and>
              gateway_calls w1 = gateway_calls w + 1"
proof -
  obtain r b1 w1 where a: "attempt_swap gw im om amount att (b, w) = (r, b1, w1)"
    by (metis prod_cases3)
  from attempt_swap_Raised[OF assms(1), of gw im om att b w] assms(2) a have r: "r \<noteq> Raised" by simp
  from attempt_swap_Returned_None[of gw im om amount att b w] assms(1) a
  have r2: "r \<noteq> Returned None" by simp
  from attempt_swap_effect[OF a] r r2 attempt_swap_world[OF a] a assms(1) show ?thesis by auto
qed

lemma swap_attempts_Raised:
  assumes "attempt_swap gw im om amount att (b, w) = (Raised, b, w1)"
  shows "swap_attempts gw im om amount (att # rest) (b, w) =
     (if att < max_retries - 1
      then swap_attempts gw im om amount rest
             (b\<lparr>retry_count := retry_count b + 1\<rparr>, sleep retry_delay w1)
      else (None, b, w1))"
  using assms by simp

lemma swap_attempts_Returned:
  assumes "attempt_swap gw im om amount att (b, w) = (Returned res, b1, w1)"
  shows "swap_attempts gw im om amount (att # rest) (b, w) = (res, b1, w1)"
  using assms by simp

lemma retry_twice:
  "(b\<lparr>retry_count := retry_count b + 1\<rparr>)\<lparr>retry_count :=
      retry_count (b\<lparr>retry_count := retry_count b + 1\<rparr>) + 1\<rparr> =
   b\<lparr>retry_count := retry_count b + 2\<rparr>"
  by simp

lemma ultra_two_attempts_fail:
  assumes nz: "py_int (amount * 10 ^ 6) \<noteq> 0"
    and f0: "\<not> jupiter_confirms (gw (gateway_calls w))"
    and f1: "\<not> jupiter_confirms (gw (gateway_calls w + 1))"
  shows "\<exists>w2. swap_tokens_jupiter_ultra gw im om amount (b, w) =
                swap_attempts gw im om amount [2]
                  (b\<lparr>retry_count := retry_count b + 2\<rparr>, w2) \<and>
              gateway_calls w2 = gateway_calls w + 2"
proof -
  from attempt_swap_raises[where gw=gw and w=w and im=im and om=om and att=0 and b=b, OF nz f0]
  obtain w1 where
    a0: "attempt_swap gw im om amount 0 (b, w) = (Raised, b, w1)"
    and g1: "gateway_calls w1 = gateway_calls w + 1" by blast
  let ?b1 = "b\<lparr>retry_count := retry_count b + 1\<rparr>"
  have "\<not> jupiter_confirms (gw (gateway_calls (sleep retry_delay w1)))"
    using f1 g1 by (simp add: sleep_def)
  from attempt_swap_raises[where gw=gw and w="sleep retry_delay w1" and im=im and om=om and att=1
      and b="?b1", OF nz this]
  obtain w2 where
    a1: "attempt_swap gw im om amount 1 (?b1, sleep retry_delay w1) = (Raised, ?b1, w2)"
    and g2: "gateway_calls w2 = gateway_calls (sleep retry_delay w1) + 1" by blast
  have lt: "(0::nat) < max_retries - 1" "(1::nat) < max_retries - 1"
    by (simp_all add: max_retries_def)
  have "swap_tokens_jupiter_ultra gw im om amount (b, w) =
          swap_attempts gw im om amount [2]
            (b\<lparr>retry_count := retry_count b + 2\<rparr>, sleep retry_delay w2)"
    unfolding swap_tokens_jupiter_ultra_def attempt_numbers
      swap_attempts_Raised[OF a0] swap_attempts_Raised[OF a1] retry_twice
    using lt by simp
  moreover have "gateway_calls (sleep retry_delay w2) = gateway_calls w + 2"
    using g1 g2 by (simp add: sleep_def)
  ultimately show ?thesis by blast
qed

lemma ultra_all_attempts_fail:
  assumes nz: "py_int (amount * 10 ^ 6) \<noteq> 0"
    and f0: "\<not> jupiter_confirms (gw (gateway_calls w))"
    and f1: "\<not> jupiter_confirms (gw (gateway_calls w + 1))"
    and f2: "\<not> jupiter_confirms (gw (gateway_calls w + 2))"
  shows "\<exists>w'. swap_tokens_jupiter_ultra gw im om amount (b, w) =
                (None, b\<lparr>retry_count := retry_count b + 2\<rparr>, w') \<and>
              gateway_calls w' = gateway_calls w + 3"
proof -
  let ?b2 = "b\<lparr>retry_count := retry_count b + 2\<rparr>"
  from ultra_two_attempts_fail[OF nz f0 f1, of im om b] obtain w2 where
    two: "swap_tokens_jupiter_ultra gw im om amount (b, w) =
            swap_attempts gw im om amount [2] (?b2, w2)"
    and g2: "gateway_calls w2 = gateway_calls w + 2" by blast
  from f2 g2 have "\<not> jupiter_confirms (gw (gateway_calls w2))" by simp
  from attempt_swap_raises[where gw=gw and w=w2 and im=im and om=om and att=2 and b="?b2",
      OF nz this]
  obtain w3 where
    a2: "attempt_swap gw im om amount 2 (?b2, w2) = (Raised, ?b2, w3)"
    and g3: "gateway_calls w3 = gateway_calls w2 + 1" by blast
  have "\<not> (2::nat) < max_retries - 1" by (simp add: max_retries_def)
  then have "swap_tokens_jupiter_ultra gw im om amount (b, w) = (None, ?b2, w3)"
    unfolding two swap_attempts_Raised[OF a2] by simp
  moreover have "gateway_calls w3 = gateway_calls w + 3" using g2 g3 by simp
  ultimately show ?thesis by blast
qed

lemma ultra_third_attempt_succeeds:
  assumes nz: "py_int (amount * 10 ^ 6) \<noteq> 0"
    and f0: "\<not> jupiter_confirms (gw (gateway_calls w))"
    and f1: "\<not> jupiter_confirms (gw (gateway_calls w + 1))"
    and f2: "jupiter_confirms (gw (gateway_calls w + 2))"
  shows "\<exists>x b' w'. swap_tokens_jupiter_ultra gw im om amount (b, w) = (Some x, b', w') \<and>
              swap_recorded amount b b' \<and> retry_count b' = retry_count b + 2 \<and>
              gateway_calls w' = gateway_calls w + 3"
proof -
  let ?b2 = "b\<lparr>retry_count := retry_count b + 2\<rparr>"
  from ultra_two_attempts_fail[OF nz f0 f1, of im om b] obtain w2 where
    two: "swap_tokens_jupiter_ultra gw im om amount (b, w) =
            swap_attempts gw im om amount [2] (?b2, w2)"
    and g2: "gateway_calls w2 = gateway_calls w + 2" by blast
  from f2 g2 have "jupiter_confirms (gw (gateway_calls w2))" by simp
  from attempt_swap_returns[where gw=gw and w=w2 and im=im and om=om and att=2 and b="?b2",
      OF nz this]
  obtain x b3 w3 where
    a2: "attempt_swap gw im om amount 2 (?b2, w2) = (Returned (Some x), b3, w3)"
    and rec: "swap_recorded amount ?b2 b3" and rc: "retry_count b3 = retry_count ?b2"
    and g3: "gateway_calls w3 = gateway_calls w2 + 1" by blast
  have "swap_tokens_jupiter_ultra gw im om amount (b, w) = (Some x, b3, w3)"
    unfolding two swap_attempts_Returned[OF a2] by simp
  moreover have "gateway_calls w3 = gateway_calls w + 3" using g2 g3 by simp
  moreover from rec have "swap_recorded amount b b3" by simp
  moreover from rc have "retry_count b3 = retry_count b + 2" by simp
  ultimately show ?thesis by blast
qed

subsection \<open>Running the model on the examples\<close>

lemmas example_defs =
  evm_ok_def evm_down_def gw_always_fails_def gw_always_confirms_def
  jup_ok_def jup_down_def jup_timeout_def jup_always_fails_def jup_always_times_out_def
  jup_fails_twice_def init_bot_def init_ultra_bot_def init_world_def

lemmas predicate_defs =
  evm_confirms_def jupiter_confirms_def submission_accepted_def confirmation_times_out_def
  poll_confirms_def reports_confirmation_def py_int_def

lemmas model_defs =
  swap_tokens_def swap_tokens_jupiter_def swap_tokens_jupiter_ultra_def attempt_swap_def
  attempt_numbers max_retries_def retry_delay_def sleep_def Let_def

lemma example_polygon_swap_fails: "swap_tokens gw_always_fails USDC_ADDRESS USDT_ADDRESS 5 6 6 (init_bot, init_world)
  = (None, init_bot, init_world\<lparr>gateway_calls := 1\<rparr>)"
  by (simp add: example_defs predicate_defs model_defs)

lemma example_ultra_retries_exhausted: "swap_tokens_jupiter_ultra jup_always_fails USDC_MINT USDCE_MINT 5 (init_ultra_bot 5000, init_world)
  = (None, (init_ultra_bot 5000)\<lparr>retry_count := 2\<rparr>,
     init_world\<lparr>gateway_calls := 3, sleeps := [1 / 2, 1 / 2]\<rparr>)"
  unfolding swap_tokens_jupiter_ultra_def attempt_numbers
  by (simp add: example_defs predicate_defs attempt_swap_def max_retries_def retry_delay_def sleep_def Let_def)

lemma example_ultra_third_attempt: "swap_tokens_jupiter_ultra jup_fails_twice USDC_MINT USDCE_MINT 5 (init_ultra_bot 5000, init_world)
  = (Some (''5sig'', 999 / 1000, 5 / 10 ^ 6),
     \<lparr>total_volume = 5, total_fees_paid = 5 / 10 ^ 6, transaction_count = 1,
      transactions = [\<lparr>tx_ref = ''5sig'', from_token = USDC_MINT, to_token = USDCE_MINT,
         amount_in = 5, amount_out = 999 / 1000, fee = 5 / 10 ^ 6,
         priority_fee_sol = 5 / 10 ^ 6, attempt = 3\<rparr>],
      initial_usdc_balance = 0, total_priority_fees = 5 / 10 ^ 6, retry_count = 2,
      priority_fee = 5000\<rparr>,
     init_world\<lparr>gateway_calls := 3, sleeps := [1 / 2, 1 / 2, 3 / 10]\<rparr>)"
  unfolding swap_tokens_jupiter_ultra_def attempt_numbers
  by (simp add: example_defs predicate_defs attempt_swap_def max_retries_def retry_delay_def sleep_def Let_def)

text \<open>
  C4. The retrying swap call of the ultra bot asks the gateway at most three times
  (\<open>max_retries\<close>), and sleeps the fixed \<open>retry_delay\<close> once for every retry it counts.
  When the first three answers of the gateway all fail, the call returns \<open>None\<close>.
  When the first two fail and the third confirms, the call returns a result and
  \<open>retry_count\<close> has grown by exactly 2.
\<close>

theorem retry_policy:
  assumes "swap_tokens_jupiter_ultra gw im om amount (b, w) = (res, b', w')"
  shows "max_retries = 3 \<and> retry_delay = 1 / 2 \<and>
     gateway_calls w' \<le> gateway_calls w + 3 \<and>
     count_list (sleeps w') retry_delay =
       count_list (sleeps w) retry_delay + nat (retry_count b' - retry_count b) \<and>
     (py_int (amount * 10 ^ 6) \<noteq> 0 \<and>
      \<not> jupiter_confirms (gw (gateway_calls w)) \<and>
      \<not> jupiter_confirms (gw (gateway_calls w + 1)) \<and>
      \<not> jupiter_confirms (gw (gateway_calls w + 2)) \<longrightarrow>
        res = None \<and> gateway_calls w' = gateway_calls w + 3 \<and>
        retry_count b' = retry_count b + 2) \<and>
     (py_int (amount * 10 ^ 6) \<noteq> 0 \<and>
      \<not> jupiter_confirms (gw (gateway_calls w)) \<and>
      \<not> jupiter_confirms (gw (gateway_calls w + 1)) \<and>
      jupiter_confirms (gw (gateway_calls w + 2)) \<longrightarrow>
        res \<noteq> None \<and> gateway_calls w' = gateway_calls w + 3 \<and>
        retry_count b' = retry_count b + 2)"
proof -
  note e = swap_tokens_jupiter_ultra_effect[OF assms]
  have fail: "res = None \<and> gateway_calls w' = gateway_calls w + 3 \<and>
        retry_count b' = retry_count b + 2"
    if "py_int (amount * 10 ^ 6) \<noteq> 0" "\<not> jupiter_confirms (gw (gateway_calls w))"
      "\<not> jupiter_confirms (gw (gateway_calls w + 1))"
      "\<not> jupiter_confirms (gw (gateway_calls w + 2))"
    using ultra_all_attempts_fail[OF that, of im om b] assms by auto
  have succeed: "res \<noteq> None \<and> gateway_calls w' = gateway_calls w + 3 \<and>
        retry_count b' = retry_count b + 2"
    if "py_int (amount * 10 ^ 6) \<noteq> 0" "\<not> jupiter_confirms (gw (gateway_calls w))"
      "\<not> jupiter_confirms (gw (gateway_calls w + 1))"
      "jupiter_confirms (gw (gateway_calls w + 2))"
    using ultra_third_attempt_succeeds[OF that, of im om b] assms by auto
  from e fail succeed show ?thesis
    by (simp add: max_retries_def retry_delay_def)
qed

theorem retry_policy_witness:
  "py_int (5 * 10 ^ 6) \<noteq> 0 \<and>
   \<not> jupiter_confirms (jup_fails_twice 0) \<and> \<not> jupiter_confirms (jup_fails_twice 1) \<and>
   jupiter_confirms (jup_fails_twice 2) \<and>
   fst (swap_tokens_jupiter_ultra jup_fails_twice USDC_MINT USDCE_MINT 5
          (init_ultra_bot 5000, init_world)) \<noteq> None \<and>
   retry_count (fst (snd (swap_tokens_jupiter_ultra jup_fails_twice USDC_MINT USDCE_MINT 5
          (init_ultra_bot 5000, init_world)))) = retry_count (init_ultra_bot 5000) + 2"
  using retry_policy[of jup_fails_twice USDC_MINT USDCE_MINT 5 "init_ultra_bot 5000" init_world
      "fst (swap_tokens_jupiter_ultra jup_fails_twice USDC_MINT USDCE_MINT 5
          (init_ultra_bot 5000, init_world))"
      "fst (snd (swap_tokens_jupiter_ultra jup_fails_twice USDC_MINT USDCE_MINT 5
          (init_ultra_bot 5000, init_world)))"
      "snd (snd (swap_tokens_jupiter_ultra jup_fails_twice USDC_MINT USDCE_MINT 5
          (init_ultra_bot 5000, init_world)))"]
  by (simp add: example_defs predicate_defs)

text \<open>
  C9. A swap call that returns \<open>None\<close> leaves the statistics as they were. For the
  Polygon bot and the original Solana bot the whole bot object is unchanged; for the
  ultra bot every attribute but \<open>retry_count\<close> is unchanged, and \<open>retry_count\<close> has not
  decreased.
\<close>

theorem failed_swap_keeps_statistics:
  "(swap_tokens gw ti to amount d d' (b, w) = (None, b', w') \<longrightarrow> b' = b) \<and>
   (swap_tokens_jupiter jgw im om jamount (b, w) = (None, b', w') \<longrightarrow> b' = b) \<and>
   (swap_tokens_jupiter_ultra ugw uim uom uamount (ub, uw) = (None, ub', uw') \<longrightarrow>
      total_volume ub' = total_volume ub \<and> total_fees_paid ub' = total_fees_paid ub \<and>
      transaction_count ub' = transaction_count ub \<and> transactions ub' = transactions ub \<and>
      total_priority_fees ub' = total_priority_fees ub \<and>
      ub' = ub\<lparr>retry_count := retry_count ub'\<rparr> \<and> retry_count ub \<le> retry_count ub')"
proof (intro conjI impI)
  assume "swap_tokens gw ti to amount d d' (b, w) = (None, b', w')"
  from swap_tokens_effect[OF this] show "b' = b" by simp
next
  assume "swap_tokens_jupiter jgw im om jamount (b, w) = (None, b', w')"
  then show "b' = b" by (rule swap_tokens_jupiter_None)
next
  assume a: "swap_tokens_jupiter_ultra ugw uim uom uamount (ub, uw) = (None, ub', uw')"
  from swap_tokens_jupiter_ultra_effect[OF a]
  have eq: "ub' = ub\<lparr>retry_count := retry_count ub'\<rparr>" and le: "retry_count ub \<le> retry_count ub'"
    by simp_all
  show "ub' = ub\<lparr>retry_count := retry_count ub'\<rparr>" by (rule eq)
  show "retry_count ub \<le> retry_count ub'" by (rule le)
  have "total_volume (ub\<lparr>retry_count := retry_count ub'\<rparr>) = total_volume ub" by simp
  with eq show "total_volume ub' = total_volume ub" by simp
  have "total_fees_paid (ub\<lparr>retry_count := retry_count ub'\<rparr>) = total_fees_paid ub" by simp
  with eq show "total_fees_paid ub' = total_fees_paid ub" by simp
  have "transaction_count (ub\<lparr>retry_count := retry_count ub'\<rparr>) = transaction_count ub" by simp
  with eq show "transaction_count ub' = transaction_count ub" by simp
  have "transactions (ub\<lparr>retry_count := retry_count ub'\<rparr>) = transactions ub" by simp
  with eq show "transactions ub' = transactions ub" by simp
  have "total_priority_fees (ub\<lparr>retry_count := retry_count ub'\<rparr>) = total_priority_fees ub" by simp
  with eq show "total_priority_fees ub' = total_priority_fees ub" by simp
qed

theorem failed_swap_keeps_statistics_witness:
  "swap_tokens gw_always_fails USDC_ADDRESS USDT_ADDRESS 5 6 6 (init_bot, init_world)
     = (None, init_bot, init_world\<lparr>gateway_calls := 1\<rparr>) \<and>
   swap_tokens_jupiter_ultra jup_always_fails USDC_MINT USDCE_MINT 5 (init_ultra_bot 5000, init_world)
     = (None, (init_ultra_bot 5000)\<lparr>retry_count := 2\<rparr>,
        init_world\<lparr>gateway_calls := 3, sleeps := [1 / 2, 1 / 2]\<rparr>) \<and>
   transactions ((init_ultra_bot 5000)\<lparr>retry_count := 2\<rparr>) = transactions (init_ultra_bot 5000) \<and>
   total_volume ((init_ultra_bot 5000)\<lparr>retry_count := 2\<rparr>) = total_volume (init_ultra_bot 5000) \<and>
   retry_count (init_ultra_bot 5000) \<le> retry_count ((init_ultra_bot 5000)\<lparr>retry_count := 2\<rparr>)"
  using failed_swap_keeps_statistics[of gw_always_fails USDC_ADDRESS USDT_ADDRESS 5 6 6
      init_bot init_world init_bot "init_world\<lparr>gateway_calls := 1\<rparr>"
      jup_always_fails USDC_MINT USDT_MINT 5
      jup_always_fails USDC_MINT USDCE_MINT 5 "init_ultra_bot 5000" init_world
      "(init_ultra_bot 5000)\<lparr>retry_count := 2\<rparr>"
      "init_world\<lparr>gateway_calls := 3, sleeps := [1 / 2, 1 / 2]\<rparr>"]
    example_polygon_swap_fails example_ultra_retries_exhausted
  by simp

subsection \<open>The invariants of the statistics\<close>

lemma count_step_recorded: "swap_recorded amount b b' \<Longrightarrow> count_step b b'"
  by (auto simp: count_step_def swap_recorded_def)

lemma count_step_refl [simp]: "count_step b b"
  by (simp add: count_step_def)

lemma count_step_matches: "count_step b b' \<Longrightarrow> count_matches b \<Longrightarrow> count_matches b'"
  unfolding count_step_def count_matches_def
  by (metis length_append_singleton of_nat_Suc add.commute)

lemma swap_tokens_jupiter_ultra_count_step:
  assumes "swap_tokens_jupiter_ultra gw im om amount (b, w) = (res, b', w')"
  shows "count_step b b'"
proof (cases res)
  case None
  with swap_tokens_jupiter_ultra_effect[OF assms]
  have "b' = b\<lparr>retry_count := retry_count b'\<rparr>" by simp
  from retry_only_extended[OF this] show ?thesis
    by (simp add: count_step_def stats_extended_def)
next
  case (Some x)
  with swap_tokens_jupiter_ultra_effect[OF assms] have "swap_recorded amount b b'" by simp
  then show ?thesis by (rule count_step_recorded)
qed

text \<open>
  C8. \<open>transaction_count\<close> is the length of the list of swap records. It holds for a new
  bot. A swap call of any of the three bots either leaves the list and the counter as
  they are or appends one record and adds exactly 1 to the counter, so it keeps the
  equality; so do the loop of \<open>run\<close> after any number of iterations and \<open>run\<close> as a whole,
  which change neither the list nor the counter except through swap calls.
\<close>

theorem transaction_count_is_length:
  "count_matches init_bot \<and> count_matches (init_ultra_bot fee_microlamports) \<and>
   (swap_tokens gw ti to amount d d' (b, w) = (res, b', w') \<longrightarrow>
      count_step b b' \<and> (count_matches b \<longrightarrow> count_matches b')) \<and>
   (swap_tokens_jupiter jgw im om jamount (b, w) = (res, b', w') \<longrightarrow>
      count_step b b' \<and> (count_matches b \<longrightarrow> count_matches b')) \<and>
   (swap_tokens_jupiter_ultra ugw uim uom uamount (ub, w) = (res, ub', w') \<longrightarrow>
      count_step ub ub' \<and> (count_matches ub \<longrightarrow> count_matches ub')) \<and>
   (run_cycles_polygon gw bal uf fx n (sc, fc) (b, w) = (counts, b', w') \<longrightarrow>
      count_matches b \<longrightarrow> count_matches b') \<and>
   (run_polygon gw bal appr num_cycles uf fx (b, w) = (rres, b', w') \<longrightarrow>
      count_matches b \<longrightarrow> count_matches b') \<and>
   (run_cycles_ultra ugw ubal uf fx n (sc, fc) (ub, w) = ((sc', fc'), ub', w') \<longrightarrow>
      count_matches ub \<longrightarrow> count_matches ub') \<and>
   (run_ultra ugw ubal num_cycles uf fx (ub, w) = (ures, ub', w') \<longrightarrow>
      count_matches ub \<longrightarrow> count_matches ub')"
proof (intro conjI impI)
  show "count_matches init_bot" by (simp add: count_matches_def init_bot_def)
  show "count_matches (init_ultra_bot fee_microlamports)"
    by (simp add: count_matches_def init_ultra_bot_def)
next
  assume a: "swap_tokens gw ti to amount d d' (b, w) = (res, b', w')"
  from swap_tokens_effect[OF a] show cs: "count_step b b'"
    by (auto intro: count_step_recorded)
  assume "count_matches b"
  with cs show "count_matches b'" by (rule count_step_matches)
next
  assume a: "swap_tokens_jupiter jgw im om jamount (b, w) = (res, b', w')"
  from swap_tokens_jupiter_effect[OF a] show cs: "count_step b b'"
    by (auto intro: count_step_recorded)
  assume "count_matches b"
  with cs show "count_matches b'" by (rule count_step_matches)
next
  assume a: "swap_tokens_jupiter_ultra ugw uim uom uamount (ub, w) = (res, ub', w')"
  then show cs: "count_step ub ub'" by (rule swap_tokens_jupiter_ultra_count_step)
  assume "count_matches ub"
  with cs show "count_matches ub'" by (rule count_step_matches)
next
  assume "run_cycles_polygon gw bal uf fx n (sc, fc) (b, w) = (counts, b', w')" "count_matches b"
  with run_cycles_polygon_stats show "count_matches b'"
    by (blast intro: count_matches_extended)
next
  assume "run_polygon gw bal appr num_cycles uf fx (b, w) = (rres, b', w')" "count_matches b"
  with run_polygon_stats show "count_matches b'"
    by (blast intro: count_matches_extended)
next
  assume "run_cycles_ultra ugw ubal uf fx n (sc, fc) (ub, w) = ((sc', fc'), ub', w')" "count_matches ub"
  with run_cycles_ultra_stats show "count_matches ub'"
    by (blast intro: count_matches_extended)
next
  assume "run_ultra ugw ubal num_cycles uf fx (ub, w) = (ures, ub', w')" "count_matches ub"
  with run_ultra_stats show "count_matches ub'"
    by (blast intro: count_matches_extended)
qed

lemmas run_defs =
  run_polygon_def generate_report_polygon_def make_report_def cycle_polygon_def
  get_balance_def get_matic_balance_def approve_token_def
  run_ultra_def cycle_ultra_def get_token_balance_def get_sol_balance_def

lemmas more_example_defs = bal_ten_def appr_ok_def sol_bal_ten_def gw_second_leg_fails_def

lemma example_polygon_cycle_partial:
  "cycle_polygon gw_second_leg_fails bal_ten True 50 (init_bot, init_world) =
    (Cycle_failed,
     \<lparr>total_volume = 10, total_fees_paid = 3 / 1000, transaction_count = 1,
      transactions = [\<lparr>tx_ref = ''0xabc'', from_token = USDC_ADDRESS, to_token = USDT_ADDRESS,
         amount_in = 10, amount_out = 999 / 1000, fee = 3 / 1000\<rparr>],
      initial_usdc_balance = 0\<rparr>,
     \<lparr>gateway_calls = 2, balance_calls = 2, sleeps = [3]\<rparr>)"
  by (simp add: example_defs more_example_defs predicate_defs model_defs run_defs)

lemma example_polygon_run_partial:
  "run_polygon gw_second_leg_fails bal_ten appr_ok 1 True 50 (init_bot, init_world) =
    (Inr \<lparr>start_balance = 10, final_balance = 10, reported_volume = 10,
          reported_transaction_count = 1, successful_cycles = 0, failed_cycles = 1,
          volume_multiplier = 1, capital_loss_percentage = 0,
          reported_transactions = [\<lparr>tx_ref = ''0xabc'', from_token = USDC_ADDRESS,
            to_token = USDT_ADDRESS, amount_in = 10, amount_out = 999 / 1000, fee = 3 / 1000\<rparr>]\<rparr>,
     \<lparr>total_volume = 10, total_fees_paid = 3 / 1000, transaction_count = 1,
      transactions = [\<lparr>tx_ref = ''0xabc'', from_token = USDC_ADDRESS, to_token = USDT_ADDRESS,
         amount_in = 10, amount_out = 999 / 1000, fee = 3 / 1000\<rparr>],
      initial_usdc_balance = 10\<rparr>,
     \<lparr>gateway_calls = 2, balance_calls = 8, sleeps = [3]\<rparr>)"
  by (simp add: example_defs more_example_defs predicate_defs model_defs run_defs)

theorem transaction_count_is_length_witness:
  "count_matches init_bot \<and>
   count_step init_bot
     (fst (snd (swap_tokens gw_always_confirms USDC_ADDRESS USDT_ADDRESS 5 6 6 (init_bot, init_world)))) \<and>
   count_matches
     (fst (snd (swap_tokens gw_always_confirms USDC_ADDRESS USDT_ADDRESS 5 6 6 (init_bot, init_world)))) \<and>
   count_matches
     (fst (snd (swap_tokens_jupiter_ultra jup_fails_twice USDC_MINT USDCE_MINT 5
        (init_ultra_bot 5000, init_world)))) \<and>
   count_matches
     (fst (snd (run_polygon gw_second_leg_fails bal_ten appr_ok 1 True 50 (init_bot, init_world))))"
  using
    transaction_count_is_length[where gw=gw_always_confirms and ti=USDC_ADDRESS and to=USDT_ADDRESS
      and amount=5 and d=6 and d'=6 and b=init_bot and w=init_world
      and res="fst (swap_tokens gw_always_confirms USDC_ADDRESS USDT_ADDRESS 5 6 6 (init_bot, init_world))"
      and b'="fst (snd (swap_tokens gw_always_confirms USDC_ADDRESS USDT_ADDRESS 5 6 6 (init_bot, init_world)))"
      and w'="snd (snd (swap_tokens gw_always_confirms USDC_ADDRESS USDT_ADDRESS 5 6 6 (init_bot, init_world)))"
      and fee_microlamports=5000]
    transaction_count_is_length[where ugw=jup_fails_twice and uim=USDC_MINT and uom=USDCE_MINT
      and uamount=5 and ub="init_ultra_bot 5000" and w=init_world
      and res="fst (swap_tokens_jupiter_ultra jup_fails_twice USDC_MINT USDCE_MINT 5
        (init_ultra_bot 5000, init_world))"
      and ub'="fst (snd (swap_tokens_jupiter_ultra jup_fails_twice USDC_MINT USDCE_MINT 5
        (init_ultra_bot 5000, init_world)))"
      and w'="snd (snd (swap_tokens_jupiter_ultra jup_fails_twice USDC_MINT USDCE_MINT 5
        (init_ultra_bot 5000, init_world)))"
      and fee_microlamports=5000]
    transaction_count_is_length[where gw=gw_second_leg_fails and bal=bal_ten and appr=appr_ok
      and num_cycles=1 and uf=True and fx=50 and b=init_bot and w=init_world
      and rres="fst (run_polygon gw_second_leg_fails bal_ten appr_ok 1 True 50 (init_bot, init_world))"
      and b'="fst (snd (run_polygon gw_second_leg_fails bal_ten appr_ok 1 True 50 (init_bot, init_world)))"
      and w'="snd (snd (run_polygon gw_second_leg_fails bal_ten appr_ok 1 True 50 (init_bot, init_world)))"]
  by simp

lemma volume_step_refl [simp]: "volume_step amount b b"
  by (simp add: volume_step_def)








subsection \<open>Sizes of the two legs\<close>

lemma two_records:
  assumes r1: "swap_recorded a1 b b1" and r2: "swap_recorded a2 b1 b'"
  shows "map amount_in (new_records b b') = [a1, a2]"
proof -
  from stats_extended_trans(2)[OF swap_recorded_extended(1)[OF r1] swap_recorded_extended(1)[OF r2]]
  have "new_records b b' = [last (transactions b1), last (transactions b')]"
    by (simp add: swap_recorded_extended(2)[OF r1] swap_recorded_extended(2)[OF r2])
  then show ?thesis
    by (simp add: swap_recorded_extended(3)[OF r1] swap_recorded_extended(3)[OF r2])
qed

lemma one_record:
  assumes r1: "swap_recorded a1 b b'"
  shows "map amount_in (new_records b b') = [a1]"
  by (simp add: swap_recorded_extended(2)[OF r1] swap_recorded_extended(3)[OF r1])

lemma cycle_polygon_amounts:
  assumes c: "cycle_polygon gw bal uf fx (b, w) = (oc, b', w')"
  shows "(oc \<noteq> Cycle_successful \<and> new_records b b' = []) \<or>
         (\<exists>ua. bal (balance_calls w) USDC_ADDRESS = Some ua \<and> oc \<noteq> Cycle_successful \<and>
            map amount_in (new_records b b') = [leg1_polygon uf fx (real_of_int ua / 10 ^ 6)]) \<or>
         (\<exists>ua ub. bal (balance_calls w) USDC_ADDRESS = Some ua \<and>
            bal (balance_calls w + 1) USDT_ADDRESS = Some ub \<and> oc = Cycle_successful \<and>
            map amount_in (new_records b b') =
              [leg1_polygon uf fx (real_of_int ua / 10 ^ 6), real_of_int ub / 10 ^ 6 * (99 / 100)])"
  using cycle_polygon_cases[OF c]
proof (elim disjE exE conjE)
  assume "oc \<noteq> Cycle_successful" "b' = b"
  then show ?thesis by simp
next
  fix ua
  assume "bal (balance_calls w) USDC_ADDRESS = Some ua" "oc \<noteq> Cycle_successful"
    "swap_recorded (leg1_polygon uf fx (real_of_int ua / 10 ^ 6)) b b'"
  with one_record show ?thesis by blast
next
  fix ua ub b1
  assume "bal (balance_calls w) USDC_ADDRESS = Some ua"
    "bal (balance_calls w + 1) USDT_ADDRESS = Some ub" "oc = Cycle_successful"
    "swap_recorded (leg1_polygon uf fx (real_of_int ua / 10 ^ 6)) b b1"
    "swap_recorded (real_of_int ub / 10 ^ 6 * (99 / 100)) b1 b'"
  with two_records show ?thesis by blast
qed

lemma cycle_ultra_amounts:
  assumes c: "cycle_ultra gw bal uf fx (b, w) = (oc, b', w')"
  shows "(oc = Cycle_failed \<and> new_records b b' = []) \<or>
         (oc = Cycle_failed \<and>
            map amount_in (new_records b b') =
              [leg1_ultra uf fx (ui_balance bal (balance_calls w) USDC_MINT)]) \<or>
         (oc = Cycle_successful \<and>
            map amount_in (new_records b b') =
              [leg1_ultra uf fx (ui_balance bal (balance_calls w) USDC_MINT),
               ui_balance bal (balance_calls w + 1) USDCE_MINT * (999 / 1000)])"
  using cycle_ultra_cases[OF c]
proof (elim disjE exE conjE)
  assume "oc = Cycle_failed" "new_records b b' = []"
  then show ?thesis by simp
next
  assume "oc = Cycle_failed"
    "swap_recorded (leg1_ultra uf fx (ui_balance bal (balance_calls w) USDC_MINT)) b b'"
  with one_record show ?thesis by blast
next
  fix b1
  assume "oc = Cycle_successful"
    "swap_recorded (leg1_ultra uf fx (ui_balance bal (balance_calls w) USDC_MINT)) b b1"
    "swap_recorded (ui_balance bal (balance_calls w + 1) USDCE_MINT * (999 / 1000)) b1 b'"
  with two_records show ?thesis by blast
qed








lemma cycle_polygon_balance_raises:
  "bal (balance_calls w) USDC_ADDRESS = None \<Longrightarrow>
     cycle_polygon gw bal uf fx (b, w) = (Cycle_raised, b, w\<lparr>balance_calls := balance_calls w + 1\<rparr>)"
  by (simp add: cycle_polygon_def get_balance_def)

lemma run_cycles_polygon_balance_raises:
  "bal (balance_calls w) USDC_ADDRESS = None \<Longrightarrow>
     fst (run_cycles_polygon gw bal uf fx (Suc n) counts (b, w)) = None"
  by (simp add: cycle_polygon_balance_raises)

subsection \<open>Confirmation timeouts\<close>

lemma await_confirmation_times_out:
  assumes "\<not> list_ex reports_confirmation ps"
  shows "fst (await_confirmation ps d w) = None"
proof -
  from assms have "\<not> list_ex poll_confirms ps"
    by (auto simp: list_ex_iff dest: poll_confirms_reports)
  then show ?thesis by (simp add: await_confirmation_None)
qed

lemma swap_tokens_jupiter_timeout:
  assumes nz: "py_int (amount * 10 ^ 6) \<noteq> 0"
    and t: "confirmation_times_out (gw (gateway_calls w))"
  shows "map_option (\<lambda>(sg, out, f). f) (fst (swap_tokens_jupiter gw im om amount (b, w)))
           = Some (5 / 10 ^ 6) \<and>
         fst (snd (swap_tokens_jupiter gw im om amount (b, w))) = b"
proof -
  let ?r = "gw (gateway_calls w)"
  let ?w1 = "w\<lparr>gateway_calls := gateway_calls w + 1\<rparr>"
  from t obtain q sg where q: "quote_out_amount ?r = Some q" and ok: "swap_transaction_ok ?r"
    and sv: "send_value ?r = Some (Some sg)"
    and np: "\<not> list_ex reports_confirmation (status_polls ?r)"
    by (auto simp: confirmation_times_out_def submission_accepted_def split: option.splits)
  obtain fr w2 where aw: "await_confirmation (status_polls ?r) (1 / 2) ?w1 = (fr, w2)"
    by (cases "await_confirmation (status_polls ?r) (1 / 2) ?w1") auto
  with await_confirmation_times_out[OF np, of "1 / 2" ?w1] have "fr = None" by simp
  with nz q ok sv aw show ?thesis
    by (simp add: swap_tokens_jupiter_def Let_def)
qed

lemma swap_tokens_no_receipt:
  assumes "tx_receipt (gw (gateway_calls w)) = None"
  shows "fst (swap_tokens gw ti to amount d d' (b, w)) = None"
proof -
  from assms have "\<not> evm_confirms (gw (gateway_calls w))"
    by (simp add: evm_confirms_def split: option.splits list.splits)
  then show ?thesis by (simp add: swap_tokens_result)
qed

text \<open>
  C2, as the code has it. A leg whose submission is accepted but whose confirmation
  does not arrive within the bounded wait is a failure in the Polygon bot (no receipt:
  \<open>swap_tokens\<close> returns \<open>None\<close>) and in the ultra Solana bot, where the attempt raises,
  is retried while attempts remain, and \<open>swap_tokens_jupiter\<close> returns \<open>None\<close>, with only
  \<open>retry_count\<close> changed, when the last attempt ends this way. The original Solana bot
  returns the tuple \<open>(signature, expected_out, 0.000005)\<close> instead and records nothing.
\<close>

theorem confirmation_timeout_by_bot:
  "(tx_receipt (gw (gateway_calls w)) = None \<longrightarrow>
      fst (swap_tokens gw ti to amount d d' (b, w)) = None) \<and>
   (py_int (uamount * 10 ^ 6) \<noteq> 0 \<and> confirmation_times_out (ugw (gateway_calls w)) \<longrightarrow>
      fst (attempt_swap ugw uim uom uamount att (ub, w)) = Raised) \<and>
   (py_int (uamount * 10 ^ 6) \<noteq> 0 \<and>
    \<not> jupiter_confirms (ugw (gateway_calls w)) \<and>
    \<not> jupiter_confirms (ugw (gateway_calls w + 1)) \<and>
    confirmation_times_out (ugw (gateway_calls w + 2)) \<longrightarrow>
      fst (swap_tokens_jupiter_ultra ugw uim uom uamount (ub, w)) = None \<and>
      fst (snd (swap_tokens_jupiter_ultra ugw uim uom uamount (ub, w))) =
        ub\<lparr>retry_count := retry_count ub + 2\<rparr>) \<and>
   (py_int (jamount * 10 ^ 6) \<noteq> 0 \<and> confirmation_times_out (jgw (gateway_calls w)) \<longrightarrow>
      map_option (\<lambda>(sg, out, f). f) (fst (swap_tokens_jupiter jgw im om jamount (b, w)))
        = Some (5 / 10 ^ 6) \<and>
      fst (snd (swap_tokens_jupiter jgw im om jamount (b, w))) = b)"
proof (intro conjI impI)
  assume "tx_receipt (gw (gateway_calls w)) = None"
  then show "fst (swap_tokens gw ti to amount d d' (b, w)) = None" by (rule swap_tokens_no_receipt)
next
  assume "py_int (uamount * 10 ^ 6) \<noteq> 0 \<and> confirmation_times_out (ugw (gateway_calls w))"
  then show "fst (attempt_swap ugw uim uom uamount att (ub, w)) = Raised"
    using attempt_swap_Raised[of uamount ugw uim uom att ub w] times_out_not_confirms by blast
next
  assume a: "py_int (uamount * 10 ^ 6) \<noteq> 0 \<and>
    \<not> jupiter_confirms (ugw (gateway_calls w)) \<and>
    \<not> jupiter_confirms (ugw (gateway_calls w + 1)) \<and>
    confirmation_times_out (ugw (gateway_calls w + 2))"
  then have "\<not> jupiter_confirms (ugw (gateway_calls w + 2))" by (simp add: times_out_not_confirms)
  with a ultra_all_attempts_fail[of uamount ugw w uim uom ub]
  obtain w' where e: "swap_tokens_jupiter_ultra ugw uim uom uamount (ub, w) =
                (None, ub\<lparr>retry_count := retry_count ub + 2\<rparr>, w')" by blast
  from e show "fst (swap_tokens_jupiter_ultra ugw uim uom uamount (ub, w)) = None" by simp
  from e show "fst (snd (swap_tokens_jupiter_ultra ugw uim uom uamount (ub, w))) =
        ub\<lparr>retry_count := retry_count ub + 2\<rparr>" by simp
next
  assume a: "py_int (jamount * 10 ^ 6) \<noteq> 0 \<and> confirmation_times_out (jgw (gateway_calls w))"
  then have nz: "py_int (jamount * 10 ^ 6) \<noteq> 0" and t: "confirmation_times_out (jgw (gateway_calls w))"
    by simp_all
  note r = swap_tokens_jupiter_timeout[where gw=jgw and w=w and im=im and om=om and b=b, OF nz t]
  from r show "map_option (\<lambda>(sg, out, f). f) (fst (swap_tokens_jupiter jgw im om jamount (b, w)))
        = Some (5 / 10 ^ 6)" by simp
  from r show "fst (snd (swap_tokens_jupiter jgw im om jamount (b, w))) = b" by simp
qed

theorem confirmation_timeout_by_bot_witness:
  "py_int (5 * 10 ^ 6) \<noteq> 0 \<and> confirmation_times_out (jup_always_times_out 0) \<and>
   \<not> jupiter_confirms (jup_always_times_out 1) \<and>
   fst (attempt_swap jup_always_times_out USDC_MINT USDCE_MINT 5 0 (init_ultra_bot 5000, init_world))
     = Raised \<and>
   fst (swap_tokens_jupiter_ultra jup_always_times_out USDC_MINT USDCE_MINT 5
          (init_ultra_bot 5000, init_world)) = None \<and>
   map_option (\<lambda>(sg, out, f). f)
     (fst (swap_tokens_jupiter jup_always_times_out USDC_MINT USDT_MINT 5 (init_bot, init_world)))
       = Some (5 / 10 ^ 6) \<and>
   fst (swap_tokens gw_always_fails USDC_ADDRESS USDT_ADDRESS 5 6 6 (init_bot, init_world)) = None"
  using confirmation_timeout_by_bot[of gw_always_fails init_world USDC_ADDRESS USDT_ADDRESS 5 6 6
      init_bot 5 jup_always_times_out USDC_MINT USDCE_MINT 0 "init_ultra_bot 5000" 5
      jup_always_times_out USDC_MINT USDT_MINT]
  by (simp add: example_defs predicate_defs)

text \<open>
  C2 as stated fails on the original Solana bot: with a gateway that accepts every
  submission and never confirms, \<open>swap_tokens_jupiter\<close> returns a result, not \<open>None\<close>.
\<close>

theorem timeout_reported_as_success:
  "py_int (5 * 10 ^ 6) \<noteq> 0 \<and>
   confirmation_times_out (jup_always_times_out (gateway_calls init_world)) \<and>
   swap_tokens_jupiter jup_always_times_out USDC_MINT USDT_MINT 5 (init_bot, init_world)
     = (Some (''5sig'', 999 / 1000, 5 / 10 ^ 6), init_bot,
        init_world\<lparr>gateway_calls := 1, sleeps := [1 / 2, 1 / 2]\<rparr>)"
  by (simp add: example_defs predicate_defs model_defs)

subsection \<open>Leg sizes in a cycle\<close>

lemma example_polygon_cycle_full:
  "cycle_polygon gw_always_confirms bal_ten True 50 (init_bot, init_world) =
    (Cycle_successful,
     \<lparr>total_volume = 199 / 10, total_fees_paid = 6 / 1000, transaction_count = 2,
      transactions =
        [\<lparr>tx_ref = ''0xabc'', from_token = USDC_ADDRESS, to_token = USDT_ADDRESS,
          amount_in = 10, amount_out = 999 / 1000, fee = 3 / 1000\<rparr>,
         \<lparr>tx_ref = ''0xabc'', from_token = USDT_ADDRESS, to_token = USDC_ADDRESS,
          amount_in = 99 / 10, amount_out = 999 / 1000, fee = 3 / 1000\<rparr>],
      initial_usdc_balance = 0\<rparr>,
     \<lparr>gateway_calls = 2, balance_calls = 2, sleeps = [3, 2]\<rparr>)"
  by (simp add: example_defs more_example_defs predicate_defs model_defs run_defs)

lemma example_polygon_cycle_fixed:
  "cycle_polygon gw_always_confirms bal_seven False 10 (init_bot, init_world) =
    (Cycle_successful,
     \<lparr>total_volume = 1393 / 100, total_fees_paid = 6 / 1000, transaction_count = 2,
      transactions =
        [\<lparr>tx_ref = ''0xabc'', from_token = USDC_ADDRESS, to_token = USDT_ADDRESS,
          amount_in = 7, amount_out = 999 / 1000, fee = 3 / 1000\<rparr>,
         \<lparr>tx_ref = ''0xabc'', from_token = USDT_ADDRESS, to_token = USDC_ADDRESS,
          amount_in = 693 / 100, amount_out = 999 / 1000, fee = 3 / 1000\<rparr>],
      initial_usdc_balance = 0\<rparr>,
     \<lparr>gateway_calls = 2, balance_calls = 2, sleeps = [3, 2]\<rparr>)"
  by (simp add: example_defs more_example_defs bal_seven_def predicate_defs model_defs run_defs)

lemma init_world_calls [simp]:
  "gateway_calls init_world = 0" "balance_calls init_world = 0" "sleeps init_world = []"
  by (simp_all add: init_world_def)

lemma init_bot_transactions [simp]:
  "transactions init_bot = []" "transactions (init_ultra_bot f) = []"
  by (simp_all add: init_bot_def init_ultra_bot_def)

lemma example_ultra_cycle_full:
  "cycle_ultra jup_always_confirms sol_bal_ten True 5 (init_ultra_bot 5000, init_world) =
    (Cycle_successful,
     \<lparr>total_volume = 1998 / 100, total_fees_paid = 10 / 10 ^ 6, transaction_count = 2,
      transactions =
        [\<lparr>tx_ref = ''5sig'', from_token = USDC_MINT, to_token = USDCE_MINT,
          amount_in = 999 / 100, amount_out = 999 / 1000, fee = 5 / 10 ^ 6,
          priority_fee_sol = 5 / 10 ^ 6, attempt = 1\<rparr>,
         \<lparr>tx_ref = ''5sig'', from_token = USDCE_MINT, to_token = USDC_MINT,
          amount_in = 999 / 100, amount_out = 999 / 1000, fee = 5 / 10 ^ 6,
          priority_fee_sol = 5 / 10 ^ 6, attempt = 1\<rparr>],
      initial_usdc_balance = 0, total_priority_fees = 10 / 10 ^ 6, retry_count = 0,
      priority_fee = 5000\<rparr>,
     \<lparr>gateway_calls = 2, balance_calls = 2, sleeps = [3 / 10, 3 / 10]\<rparr>)"
  unfolding cycle_ultra_def swap_tokens_jupiter_ultra_def attempt_numbers
  by (simp add: example_defs more_example_defs jup_always_confirms_def predicate_defs
      attempt_swap_def max_retries_def retry_delay_def sleep_def Let_def get_token_balance_def)

lemma example_ultra_cycle_fixed:
  "cycle_ultra jup_always_confirms sol_bal_seven False 10 (init_ultra_bot 5000, init_world) =
    (Cycle_successful,
     \<lparr>total_volume = 13993 / 1000, total_fees_paid = 10 / 10 ^ 6, transaction_count = 2,
      transactions =
        [\<lparr>tx_ref = ''5sig'', from_token = USDC_MINT, to_token = USDCE_MINT,
          amount_in = 7, amount_out = 999 / 1000, fee = 5 / 10 ^ 6,
          priority_fee_sol = 5 / 10 ^ 6, attempt = 1\<rparr>,
         \<lparr>tx_ref = ''5sig'', from_token = USDCE_MINT, to_token = USDC_MINT,
          amount_in = 6993 / 1000, amount_out = 999 / 1000, fee = 5 / 10 ^ 6,
          priority_fee_sol = 5 / 10 ^ 6, attempt = 1\<rparr>],
      initial_usdc_balance = 0, total_priority_fees = 10 / 10 ^ 6, retry_count = 0,
      priority_fee = 5000\<rparr>,
     \<lparr>gateway_calls = 2, balance_calls = 2, sleeps = [3 / 10, 3 / 10]\<rparr>)"
  unfolding cycle_ultra_def swap_tokens_jupiter_ultra_def attempt_numbers
  by (simp add: example_defs more_example_defs sol_bal_seven_def jup_always_confirms_def predicate_defs
      attempt_swap_def max_retries_def retry_delay_def sleep_def Let_def get_token_balance_def)

lemma fst_get_balance:
  "fst (get_balance bal t 6 w) = map_option (\<lambda>units. real_of_int units / 10 ^ 6) (bal (balance_calls w) t)"
  by (simp add: get_balance_def)

lemma fst_get_token_balance:
  "fst (get_token_balance bal mint w) = ui_balance bal (balance_calls w) mint"
  by (simp add: get_token_balance_ui)

text \<open>
  C6, as the code has it. In a cycle whose two legs are confirmed, the two records
  appended carry the sizes of the legs. The size of leg 2 is the balance of the second
  token, queried after leg 1, times \<open>0.99\<close> in the Polygon bot and times \<open>0.999\<close> in the
  ultra bot, whatever the sizing mode. The size of leg 1 is the queried balance of the
  first token, whole in the Polygon bot and times \<open>0.999\<close> in the ultra bot, or in
  fixed-amount mode the smaller of the fixed amount and that balance.
\<close>

theorem leg_sizes_of_successful_cycle:
  "(cycle_polygon gw bal uf fx (b, w) = (Cycle_successful, b', w') \<longrightarrow>
     (\<exists>A B. fst (get_balance bal USDC_ADDRESS 6 w) = Some A \<and>
            fst (get_balance bal USDT_ADDRESS 6 (w\<lparr>balance_calls := balance_calls w + 1\<rparr>))
              = Some B \<and>
            map amount_in (new_records b b') = [if uf then A else min fx A, B * (99 / 100)])) \<and>
   (cycle_ultra ugw ubal uf fx (ub, w) = (Cycle_successful, ub', w') \<longrightarrow>
      map amount_in (new_records ub ub') =
        [if uf then fst (get_token_balance ubal USDC_MINT w) * (999 / 1000)
         else min fx (fst (get_token_balance ubal USDC_MINT w)),
         fst (get_token_balance ubal USDCE_MINT (w\<lparr>balance_calls := balance_calls w + 1\<rparr>))
           * (999 / 1000)])"
proof (intro conjI impI)
  assume "cycle_polygon gw bal uf fx (b, w) = (Cycle_successful, b', w')"
  from cycle_polygon_amounts[OF this] obtain ua ub where
    "bal (balance_calls w) USDC_ADDRESS = Some ua"
    "bal (balance_calls w + 1) USDT_ADDRESS = Some ub"
    "map amount_in (new_records b b') =
       [leg1_polygon uf fx (real_of_int ua / 10 ^ 6), real_of_int ub / 10 ^ 6 * (99 / 100)]"
    by auto
  then show "\<exists>A B. fst (get_balance bal USDC_ADDRESS 6 w) = Some A \<and>
            fst (get_balance bal USDT_ADDRESS 6 (w\<lparr>balance_calls := balance_calls w + 1\<rparr>))
              = Some B \<and>
            map amount_in (new_records b b') = [if uf then A else min fx A, B * (99 / 100)]"
    by (intro exI[of _ "real_of_int ua / 10 ^ 6"] exI[of _ "real_of_int ub / 10 ^ 6"])
       (simp add: fst_get_balance leg1_polygon_def)
next
  assume "cycle_ultra ugw ubal uf fx (ub, w) = (Cycle_successful, ub', w')"
  from cycle_ultra_amounts[OF this]
  show "map amount_in (new_records ub ub') =
        [if uf then fst (get_token_balance ubal USDC_MINT w) * (999 / 1000)
         else min fx (fst (get_token_balance ubal USDC_MINT w)),
         fst (get_token_balance ubal USDCE_MINT (w\<lparr>balance_calls := balance_calls w + 1\<rparr>))
           * (999 / 1000)]"
    by (simp add: fst_get_token_balance leg1_ultra_def)
qed

theorem leg_sizes_of_successful_cycle_witness:
  "fst (cycle_polygon gw_always_confirms bal_ten True 50 (init_bot, init_world)) = Cycle_successful \<and>
   map amount_in (new_records init_bot
     (fst (snd (cycle_polygon gw_always_confirms bal_ten True 50 (init_bot, init_world)))))
    = [10, 10 * (99 / 100)] \<and>
   fst (cycle_ultra jup_always_confirms sol_bal_ten True 5 (init_ultra_bot 5000, init_world))
     = Cycle_successful \<and>
   map amount_in (new_records (init_ultra_bot 5000)
     (fst (snd (cycle_ultra jup_always_confirms sol_bal_ten True 5 (init_ultra_bot 5000, init_world)))))
    = [10 * (999 / 1000), 10 * (999 / 1000)]"
  using leg_sizes_of_successful_cycle[where gw=gw_always_confirms and bal=bal_ten and uf=True
      and fx=50 and b=init_bot and w=init_world
      and b'="fst (snd (cycle_polygon gw_always_confirms bal_ten True 50 (init_bot, init_world)))"
      and w'="snd (snd (cycle_polygon gw_always_confirms bal_ten True 50 (init_bot, init_world)))"
      and ugw=jup_always_confirms and ubal=sol_bal_ten and ub="init_ultra_bot 5000"
      and ub'="fst (snd (cycle_ultra jup_always_confirms sol_bal_ten True 5 (init_ultra_bot 5000, init_world)))"]
    leg_sizes_of_successful_cycle[where ugw=jup_always_confirms and ubal=sol_bal_ten and uf=True
      and fx=5 and ub="init_ultra_bot 5000" and w=init_world
      and ub'="fst (snd (cycle_ultra jup_always_confirms sol_bal_ten True 5 (init_ultra_bot 5000, init_world)))"
      and w'="snd (snd (cycle_ultra jup_always_confirms sol_bal_ten True 5 (init_ultra_bot 5000, init_world)))"
      and gw=gw_always_confirms and bal=bal_ten and b=init_bot
      and b'="fst (snd (cycle_polygon gw_always_confirms bal_ten True 50 (init_bot, init_world)))"]
  by (simp add: example_polygon_cycle_full example_ultra_cycle_full fst_get_balance
      fst_get_token_balance ui_balance_def bal_ten_def sol_bal_ten_def)

text \<open>
  C6 as stated fails on the Polygon bot: in full-balance mode leg 1 swaps the whole
  queried balance (factor 1) and leg 2 swaps \<open>0.99\<close> of the queried balance.
\<close>

theorem polygon_legs_use_different_factors:
  "fst (get_balance bal_ten USDC_ADDRESS 6 init_world) = Some 10 \<and>
   fst (get_balance bal_ten USDT_ADDRESS 6 (init_world\<lparr>balance_calls := 1\<rparr>)) = Some 10 \<and>
   fst (cycle_polygon gw_always_confirms bal_ten True 50 (init_bot, init_world)) = Cycle_successful \<and>
   map amount_in (transactions
     (fst (snd (cycle_polygon gw_always_confirms bal_ten True 50 (init_bot, init_world)))))
    = [1 * 10, (99 / 100) * 10] \<and>
   (1::real) \<noteq> 99 / 100"
  by (simp add: example_polygon_cycle_full fst_get_balance bal_ten_def)

text \<open>
  C7. In fixed-amount mode, whenever a cycle records its first leg, the recorded size is
  the smaller of the fixed amount and the balance of the first token queried at the
  start of the cycle, so it never exceeds that balance: with a fixed amount of 10 and
  a balance of 7 the size is 7.
\<close>

theorem fixed_amount_capped_at_balance:
  "(\<not> uf \<and> cycle_polygon gw bal uf fx (b, w) = (oc, b', w') \<and> new_records b b' \<noteq> [] \<longrightarrow>
      (\<exists>A. fst (get_balance bal USDC_ADDRESS 6 w) = Some A \<and>
           amount_in (hd (new_records b b')) = min fx A \<and>
           amount_in (hd (new_records b b')) \<le> A)) \<and>
   (\<not> uf \<and> cycle_ultra ugw ubal uf fx (ub, w) = (oc, ub', w') \<and> new_records ub ub' \<noteq> [] \<longrightarrow>
      amount_in (hd (new_records ub ub')) = min fx (fst (get_token_balance ubal USDC_MINT w)) \<and>
      amount_in (hd (new_records ub ub')) \<le> fst (get_token_balance ubal USDC_MINT w))"
proof (intro conjI impI)
  assume a: "\<not> uf \<and> cycle_polygon gw bal uf fx (b, w) = (oc, b', w') \<and> new_records b b' \<noteq> []"
  then have c: "cycle_polygon gw bal uf fx (b, w) = (oc, b', w')" by blast
  from cycle_polygon_amounts[OF c] a obtain ua where
    ua: "bal (balance_calls w) USDC_ADDRESS = Some ua"
    and "hd (map amount_in (new_records b b')) = leg1_polygon uf fx (real_of_int ua / 10 ^ 6)"
    by auto
  with a have "amount_in (hd (new_records b b')) = min fx (real_of_int ua / 10 ^ 6)"
    by (simp add: hd_map leg1_polygon_def)
  with ua show "\<exists>A. fst (get_balance bal USDC_ADDRESS 6 w) = Some A \<and>
           amount_in (hd (new_records b b')) = min fx A \<and>
           amount_in (hd (new_records b b')) \<le> A"
    by (intro exI[of _ "real_of_int ua / 10 ^ 6"]) (simp add: fst_get_balance)
next
  assume a: "\<not> uf \<and> cycle_ultra ugw ubal uf fx (ub, w) = (oc, ub', w') \<and> new_records ub ub' \<noteq> []"
  then have c: "cycle_ultra ugw ubal uf fx (ub, w) = (oc, ub', w')" by blast
  from cycle_ultra_amounts[OF c] a
  have "hd (map amount_in (new_records ub ub')) =
          leg1_ultra uf fx (ui_balance ubal (balance_calls w) USDC_MINT)"
    by auto
  with a have e: "amount_in (hd (new_records ub ub')) = min fx (fst (get_token_balance ubal USDC_MINT w))"
    by (simp add: hd_map leg1_ultra_def fst_get_token_balance)
  then show "amount_in (hd (new_records ub ub')) = min fx (fst (get_token_balance ubal USDC_MINT w))" .
  from e show "amount_in (hd (new_records ub ub')) \<le> fst (get_token_balance ubal USDC_MINT w)"
    by simp
qed

theorem fixed_amount_capped_at_balance_witness:
  "fst (get_balance bal_seven USDC_ADDRESS 6 init_world) = Some 7 \<and>
   new_records init_bot
     (fst (snd (cycle_polygon gw_always_confirms bal_seven False 10 (init_bot, init_world)))) \<noteq> [] \<and>
   amount_in (hd (new_records init_bot
     (fst (snd (cycle_polygon gw_always_confirms bal_seven False 10 (init_bot, init_world))))))
    = min 10 7 \<and>
   fst (get_token_balance sol_bal_seven USDC_MINT init_world) = 7 \<and>
   new_records (init_ultra_bot 5000)
     (fst (snd (cycle_ultra jup_always_confirms sol_bal_seven False 10
        (init_ultra_bot 5000, init_world)))) \<noteq> [] \<and>
   amount_in (hd (new_records (init_ultra_bot 5000)
     (fst (snd (cycle_ultra jup_always_confirms sol_bal_seven False 10
        (init_ultra_bot 5000, init_world))))))
    = min 10 7"
  using fixed_amount_capped_at_balance[where uf=False and gw=gw_always_confirms and bal=bal_seven
      and fx=10 and b=init_bot and w=init_world
      and oc="fst (cycle_polygon gw_always_confirms bal_seven False 10 (init_bot, init_world))"
      and b'="fst (snd (cycle_polygon gw_always_confirms bal_seven False 10 (init_bot, init_world)))"
      and w'="snd (snd (cycle_polygon gw_always_confirms bal_seven False 10 (init_bot, init_world)))"
      and ugw=jup_always_confirms and ubal=sol_bal_seven and ub="init_ultra_bot 5000"
      and ub'="fst (snd (cycle_ultra jup_always_confirms sol_bal_seven False 10
        (init_ultra_bot 5000, init_world)))"]
    fixed_amount_capped_at_balance[where uf=False and ugw=jup_always_confirms and ubal=sol_bal_seven
      and fx=10 and ub="init_ultra_bot 5000" and w=init_world
      and oc="fst (cycle_ultra jup_always_confirms sol_bal_seven False 10
        (init_ultra_bot 5000, init_world))"
      and ub'="fst (snd (cycle_ultra jup_always_confirms sol_bal_seven False 10
        (init_ultra_bot 5000, init_world)))"
      and w'="snd (snd (cycle_ultra jup_always_confirms sol_bal_seven False 10
        (init_ultra_bot 5000, init_world)))"
      and gw=gw_always_confirms and bal=bal_seven and b=init_bot
      and b'="fst (snd (cycle_polygon gw_always_confirms bal_seven False 10 (init_bot, init_world)))"]
  by (simp add: example_polygon_cycle_fixed example_ultra_cycle_fixed fst_get_balance
      fst_get_token_balance ui_balance_def bal_seven_def sol_bal_seven_def new_records_def)

subsection \<open>Reaching the report\<close>

lemma swap_tokens_jupiter_ultra_fails:
  assumes "\<forall>k. \<not> jupiter_confirms (gw k)"
  shows "fst (swap_tokens_jupiter_ultra gw im om amount (b, w)) = None"
proof (cases "py_int (amount * 10 ^ 6) = 0")
  case True
  then show ?thesis by (simp add: swap_tokens_jupiter_ultra_zero)
next
  case False
  from ultra_all_attempts_fail[where gw=gw and w=w and im=im and om=om and b=b, OF False]
    assms show ?thesis by auto
qed

lemma cycle_ultra_gateway_fails:
  assumes "\<forall>k. \<not> jupiter_confirms (gw k)"
  shows "fst (cycle_ultra gw bal uf fx (b, w)) \<noteq> Cycle_successful"
proof -
  have n: "\<And>im om a b w x y. swap_tokens_jupiter_ultra gw im om a (b, w) \<noteq> (Some x, y)"
    using swap_tokens_jupiter_ultra_fails[OF assms] by (metis fst_conv option.distinct(1))
  show ?thesis
    by (auto simp: cycle_ultra_def Let_def n split: prod.splits option.splits)
qed

lemma run_cycles_ultra_gateway_fails:
  assumes "\<forall>k. \<not> jupiter_confirms (gw k)"
  shows "fst (fst (run_cycles_ultra gw bal uf fx n (sc, fc) s)) = sc"
proof (induction n arbitrary: sc fc s)
  case 0
  then show ?case by simp
next
  case (Suc n)
  obtain b w where s: "s = (b, w)" by (cases s)
  obtain oc s1 where c: "cycle_ultra gw bal uf fx (b, w) = (oc, s1)"
    by (cases "cycle_ultra gw bal uf fx (b, w)") auto
  with cycle_ultra_gateway_fails[OF assms, of bal uf fx b w] have "oc \<noteq> Cycle_successful" by simp
  with c s Suc.IH[of sc "fc + 1" s1] show ?case by (cases oc) simp_all
qed





subsection \<open>Confirmed swaps, and gateways that confirm nothing\<close>



lemma attempt_swap_confirmed:
  assumes a: "attempt_swap gw im om amount att (b, w) = (r, b', w')"
  shows "(\<exists>x. r = Returned (Some x)) \<longleftrightarrow>
           py_int (amount * 10 ^ 6) \<noteq> 0 \<and> jupiter_confirms (gw (gateway_calls w))"
proof (cases "py_int (amount * 10 ^ 6) = 0")
  case True
  with a show ?thesis by (auto simp: attempt_swap_zero)
next
  case False
  from attempt_swap_Raised[OF False, of gw im om att b w] a
  have 1: "r = Raised \<longleftrightarrow> \<not> jupiter_confirms (gw (gateway_calls w))" by simp
  from attempt_swap_Returned_None[of gw im om amount att b w] a False
  have 2: "r \<noteq> Returned None" by simp
  show ?thesis
  proof (cases r)
    case Raised
    with 1 show ?thesis by simp
  next
    case (Returned y)
    with 1 2 False show ?thesis by (cases y) auto
  qed
qed









subsection \<open>Balance queries of a run\<close>














subsection \<open>The report\<close>







subsection \<open>Records per cycle\<close>

lemma init_bot_transaction_count: "transaction_count init_bot = 0"
  by (simp add: init_bot_def)

text \<open>
  C1, as the code has it. A swap call records its swap as soon as it is confirmed, and
  a cycle whose second leg fails keeps the record of its first leg. So a successful
  cycle adds exactly two records, a cycle that is not successful adds none or one, and
  when \<open>run\<close> returns its report \<open>transaction_count\<close> has grown by at least twice
  \<open>successful_cycles\<close> and by at most twice \<open>successful_cycles\<close> plus \<open>failed_cycles\<close>
  (Polygon bot and ultra bot).
\<close>

theorem transaction_count_after_run:
  "(cycle_polygon gw bal uf fx (b, w) = (oc, b', w') \<longrightarrow>
      (oc = Cycle_successful \<longrightarrow> transaction_count b' = transaction_count b + 2) \<and>
      (oc \<noteq> Cycle_successful \<longrightarrow>
         transaction_count b' = transaction_count b \<or>
         transaction_count b' = transaction_count b + 1)) \<and>
   (run_polygon gw bal appr num_cycles uf fx (b, w) = (Inr rep, b', w') \<longrightarrow>
      2 * successful_cycles rep \<le> transaction_count b' - transaction_count b \<and>
      transaction_count b' - transaction_count b
        \<le> 2 * successful_cycles rep + failed_cycles rep \<and>
      reported_transaction_count rep = transaction_count b') \<and>
   (cycle_ultra ugw ubal uf fx (ub, w) = (oc, ub', w') \<longrightarrow>
      (oc = Cycle_successful \<longrightarrow> transaction_count ub' = transaction_count ub + 2) \<and>
      (oc \<noteq> Cycle_successful \<longrightarrow>
         transaction_count ub' = transaction_count ub \<or>
         transaction_count ub' = transaction_count ub + 1)) \<and>
   (run_ultra ugw ubal num_cycles uf fx (ub, w) = (Inr urep, ub', w') \<longrightarrow>
      2 * successful_cycles urep \<le> transaction_count ub' - transaction_count ub \<and>
      transaction_count ub' - transaction_count ub
        \<le> 2 * successful_cycles urep + failed_cycles urep \<and>
      reported_transaction_count urep = transaction_count ub')"
proof (intro conjI impI)
  assume c: "cycle_polygon gw bal uf fx (b, w) = (oc, b', w')"
  note s = cycle_polygon_stats[OF c]
  { assume "oc = Cycle_successful"
    with s show "transaction_count b' = transaction_count b + 2"
      by (simp add: stats_extended_def) }
  { assume "oc \<noteq> Cycle_successful"
    with s have "length (new_records b b') = 0 \<or> length (new_records b b') = 1"
      by (simp add: le_Suc_eq)
    with s show "transaction_count b' = transaction_count b \<or>
         transaction_count b' = transaction_count b + 1"
      by (auto simp: stats_extended_def) }
next
  assume r: "run_polygon gw bal appr num_cycles uf fx (b, w) = (Inr rep, b', w')"
  note s = run_polygon_stats[OF r]
  from s have tc: "transaction_count b' - transaction_count b = int (length (new_records b b'))"
    by (simp add: stats_extended_def)
  from s tc show "2 * successful_cycles rep \<le> transaction_count b' - transaction_count b" by simp
  from s tc show "transaction_count b' - transaction_count b
        \<le> 2 * successful_cycles rep + failed_cycles rep" by simp
  from s show "reported_transaction_count rep = transaction_count b'" by simp
next
  assume c: "cycle_ultra ugw ubal uf fx (ub, w) = (oc, ub', w')"
  note s = cycle_ultra_stats[OF c]
  { assume "oc = Cycle_successful"
    with s show "transaction_count ub' = transaction_count ub + 2"
      by (simp add: stats_extended_def) }
  { assume "oc \<noteq> Cycle_successful"
    with s have "length (new_records ub ub') = 0 \<or> length (new_records ub ub') = 1"
      by (simp add: le_Suc_eq)
    with s show "transaction_count ub' = transaction_count ub \<or>
         transaction_count ub' = transaction_count ub + 1"
      by (auto simp: stats_extended_def) }
next
  assume r: "run_ultra ugw ubal num_cycles uf fx (ub, w) = (Inr urep, ub', w')"
  note s = run_ultra_stats[OF r]
  from s have tc: "transaction_count ub' - transaction_count ub = int (length (new_records ub ub'))"
    by (simp add: stats_extended_def)
  from s tc show "2 * successful_cycles urep \<le> transaction_count ub' - transaction_count ub" by simp
  from s tc show "transaction_count ub' - transaction_count ub
        \<le> 2 * successful_cycles urep + failed_cycles urep" by simp
  from s show "reported_transaction_count urep = transaction_count ub'" by simp
qed

theorem transaction_count_after_run_witness:
  "fst (cycle_polygon gw_always_confirms bal_ten True 50 (init_bot, init_world)) = Cycle_successful \<and>
   transaction_count (fst (snd (cycle_polygon gw_always_confirms bal_ten True 50 (init_bot, init_world))))
     = transaction_count init_bot + 2 \<and>
   fst (cycle_polygon gw_second_leg_fails bal_ten True 50 (init_bot, init_world)) \<noteq> Cycle_successful \<and>
   transaction_count (fst (snd (cycle_polygon gw_second_leg_fails bal_ten True 50 (init_bot, init_world))))
     = transaction_count init_bot + 1 \<and>
   \<not> isl (fst (run_polygon gw_second_leg_fails bal_ten appr_ok 1 True 50 (init_bot, init_world))) \<and>
   transaction_count
     (fst (snd (run_polygon gw_second_leg_fails bal_ten appr_ok 1 True 50 (init_bot, init_world))))
     - transaction_count init_bot
    \<le> 2 * successful_cycles
          (projr (fst (run_polygon gw_second_leg_fails bal_ten appr_ok 1 True 50 (init_bot, init_world))))
      + failed_cycles
          (projr (fst (run_polygon gw_second_leg_fails bal_ten appr_ok 1 True 50 (init_bot, init_world))))"
  using
    transaction_count_after_run[where gw=gw_always_confirms and bal=bal_ten and uf=True and fx=50
      and b=init_bot and w=init_world
      and oc="fst (cycle_polygon gw_always_confirms bal_ten True 50 (init_bot, init_world))"
      and b'="fst (snd (cycle_polygon gw_always_confirms bal_ten True 50 (init_bot, init_world)))"
      and w'="snd (snd (cycle_polygon gw_always_confirms bal_ten True 50 (init_bot, init_world)))"]
    transaction_count_after_run[where gw=gw_second_leg_fails and bal=bal_ten and uf=True and fx=50
      and b=init_bot and w=init_world
      and oc="fst (cycle_polygon gw_second_leg_fails bal_ten True 50 (init_bot, init_world))"
      and b'="fst (snd (cycle_polygon gw_second_leg_fails bal_ten True 50 (init_bot, init_world)))"
      and w'="snd (snd (cycle_polygon gw_second_leg_fails bal_ten True 50 (init_bot, init_world)))"]
    transaction_count_after_run[where gw=gw_second_leg_fails and bal=bal_ten and appr=appr_ok
      and num_cycles=1 and uf=True and fx=50 and b=init_bot and w=init_world
      and rep="projr (fst (run_polygon gw_second_leg_fails bal_ten appr_ok 1 True 50 (init_bot, init_world)))"
      and b'="fst (snd (run_polygon gw_second_leg_fails bal_ten appr_ok 1 True 50 (init_bot, init_world)))"
      and w'="snd (snd (run_polygon gw_second_leg_fails bal_ten appr_ok 1 True 50 (init_bot, init_world)))"]
  by (simp add: example_polygon_cycle_full example_polygon_cycle_partial example_polygon_run_partial
      init_bot_transaction_count)

text \<open>
  C1 as stated fails on the Polygon bot: in a run of one cycle whose first leg is
  confirmed and whose second leg fails, the report counts no successful cycle and one
  failed cycle, and one swap record has been counted.
\<close>

theorem failed_cycle_keeps_first_leg:
  "\<not> isl (fst (run_polygon gw_second_leg_fails bal_ten appr_ok 1 True 50 (init_bot, init_world))) \<and>
   successful_cycles
     (projr (fst (run_polygon gw_second_leg_fails bal_ten appr_ok 1 True 50 (init_bot, init_world)))) = 0 \<and>
   failed_cycles
     (projr (fst (run_polygon gw_second_leg_fails bal_ten appr_ok 1 True 50 (init_bot, init_world)))) = 1 \<and>
   transaction_count
     (fst (snd (run_polygon gw_second_leg_fails bal_ten appr_ok 1 True 50 (init_bot, init_world)))) = 1 \<and>
   length (transactions
     (fst (snd (run_polygon gw_second_leg_fails bal_ten appr_ok 1 True 50 (init_bot, init_world))))) = 1 \<and>
   transaction_count
     (fst (snd (run_polygon gw_second_leg_fails bal_ten appr_ok 1 True 50 (init_bot, init_world))))
    \<noteq> 2 * successful_cycles
     (projr (fst (run_polygon gw_second_leg_fails bal_ten appr_ok 1 True 50 (init_bot, init_world))))"
  by (simp add: example_polygon_run_partial)

subsection \<open>The volume\<close>







end
